theory Spec2Isabelle
  imports
    Main
    "HOL-Library.Char_ord"
    "HOL-Library.List_Lexorder"
    "HOL-Library.Product_Lexorder"
    "HOL-Library.AList"
begin

section \<open>Strings, byte strings and dictionaries\<close>

text \<open>
  The embedding follows \<^verbatim>\<open>src/aury/sdk/storage/storage/cos.py\<close> (class
  \<^verbatim>\<open>COSStorage\<close>). A Python \<^verbatim>\<open>str\<close> is a \<open>string\<close>: the list of the 8-bit
  characters of its UTF-8 encoding, which is the text itself for ASCII. Comparing two such
  lists byte by byte orders them as Python orders the code points. \<^verbatim>\<open>bytes\<close> values
  are lists of 8-bit characters as well. A leading underscore of a Python name is dropped
  (\<^verbatim>\<open>_sign\<close> is \<open>sign\<close>).
\<close>

type_synonym bytes = string

text \<open>
  A \<^verbatim>\<open>dict[str, str]\<close> is an association list in insertion order whose keys are
  pairwise distinct; \<^verbatim>\<open>d[k] = v\<close> is \<open>AList.update k v d\<close>, which overwrites in
  place or appends.
\<close>

type_synonym dict = "(string \<times> string) list"

definition is_dict :: "dict \<Rightarrow> bool" where
  "is_dict d = distinct (map fst d)"

text \<open>\<^verbatim>\<open>s.startswith(p)\<close>\<close>

definition startswith :: "string \<Rightarrow> string \<Rightarrow> bool" where
  "startswith s p = (take (length p) s = p)"

text \<open>\<^verbatim>\<open>sub in s\<close> on strings: \<open>sub\<close> occurs in \<open>s\<close> as a contiguous block.\<close>

fun str_contains :: "string \<Rightarrow> string \<Rightarrow> bool" where
  "str_contains sub [] = (sub = [])"
| "str_contains sub (c # cs) = (startswith (c # cs) sub \<or> str_contains sub cs)"

text \<open>\<^verbatim>\<open>s.rstrip("/")\<close>: every trailing slash is removed.\<close>

definition rstrip_slash :: "string \<Rightarrow> string" where
  "rstrip_slash s = rev (dropWhile (\<lambda>c. c = CHR ''/'') (rev s))"

text \<open>
  \<^verbatim>\<open>s.lower()\<close> on ASCII text: the letters A to Z are folded. The bytes of a
  character outside ASCII are left as they are, where Python folds the cased ones among
  them as well.
\<close>

definition lower_char :: "char \<Rightarrow> char" where
  "lower_char c =
     (if CHR ''A'' \<le> c \<and> c \<le> CHR ''Z'' then char_of (of_char c + (32::nat)) else c)"

definition lower :: "string \<Rightarrow> string" where
  "lower s = map lower_char s"

text \<open>\<^verbatim>\<open>sep.join(xs)\<close>\<close>

fun join :: "string \<Rightarrow> string list \<Rightarrow> string" where
  "join sep [] = []"
| "join sep [x] = x"
| "join sep (x # y # ys) = x @ sep @ join sep (y # ys)"

text \<open>\<^verbatim>\<open>str(n)\<close> for an integer: decimal digits, with a minus sign when negative.\<close>

definition digit_char :: "nat \<Rightarrow> char" where
  "digit_char d = char_of (48 + d)"

fun str_nat :: "nat \<Rightarrow> string" where
  "str_nat n = (if n < 10 then [digit_char n] else str_nat (n div 10) @ [digit_char (n mod 10)])"

declare str_nat.simps [simp del]

definition str_int :: "int \<Rightarrow> string" where
  "str_int i = (if i < 0 then CHR ''-'' # str_nat (nat (- i)) else str_nat (nat i))"

text \<open>
  \<^verbatim>\<open>urllib.parse.quote(s, safe=...)\<close>: the ASCII letters, the digits and \<^verbatim>\<open>_.-~\<close>
  are never escaped, nor are the characters of \<open>safe\<close>; every other byte of the UTF-8
  encoding becomes \<^verbatim>\<open>%XX\<close> with upper-case hexadecimal digits.
\<close>

definition always_safe :: "char \<Rightarrow> bool" where
  "always_safe c =
     ((CHR ''A'' \<le> c \<and> c \<le> CHR ''Z'') \<or> (CHR ''a'' \<le> c \<and> c \<le> CHR ''z'') \<or>
      (CHR ''0'' \<le> c \<and> c \<le> CHR ''9'') \<or> c \<in> set ''_.-~'')"

definition hex_digit :: "nat \<Rightarrow> char" where
  "hex_digit d = (if d < 10 then char_of (48 + d) else char_of (55 + d))"

definition quote_char :: "string \<Rightarrow> char \<Rightarrow> string" where
  "quote_char safe c =
     (if always_safe c \<or> c \<in> set safe then [c]
      else [CHR ''%'', hex_digit (of_char c div 16), hex_digit (of_char c mod 16)])"

definition quote :: "string \<Rightarrow> string \<Rightarrow> string" where
  "quote s safe = concat (map (quote_char safe) s)"

section \<open>The header filter\<close>

text \<open>The set literal \<^verbatim>\<open>valid_headers\<close> of \<^verbatim>\<open>_filter_headers\<close>.\<close>

definition valid_headers :: "string list" where
  "valid_headers =
     [''cache-control'', ''content-disposition'', ''content-encoding'', ''content-type'',
      ''content-md5'', ''content-length'', ''expect'', ''expires'', ''host'', ''if-match'',
      ''if-modified-since'', ''if-none-match'', ''if-unmodified-since'', ''origin'',
      ''range'', ''transfer-encoding'']"

text \<open>
  \<^verbatim>\<open>_filter_headers\<close>: the loop over \<^verbatim>\<open>headers.items()\<close> that stores the retained
  entries in \<^verbatim>\<open>result\<close>.
\<close>

definition signed_header :: "string \<Rightarrow> bool" where
  "signed_header k =
     (let key_lower = lower k
      in key_lower \<in> set valid_headers \<or> startswith key_lower ''x-cos-'')"

definition filter_headers :: "dict \<Rightarrow> dict" where
  "filter_headers headers =
     fold (\<lambda>(k, v) result. if signed_header k then AList.update k v result else result)
       headers []"

section \<open>Configuration and errors\<close>

text \<open>
  \<^verbatim>\<open>StorageConfig\<close> is declared in \<^verbatim>\<open>models.py\<close>; this client reads six of its
  fields, each a string or \<^verbatim>\<open>None\<close>.
\<close>

record storage_config =
  access_key_id :: "string option"
  access_key_secret :: "string option"
  session_token :: "string option"
  endpoint :: "string option"
  region :: "string option"
  cfg_bucket_name :: "string option"

text \<open>
  Truth value of an optional string: \<^verbatim>\<open>None\<close> and the empty string are false. The
  result is the string when it is true.
\<close>

definition truthy :: "string option \<Rightarrow> string option" where
  "truthy x = (case x of None \<Rightarrow> None | Some s \<Rightarrow> if s = [] then None else Some s)"

text \<open>\<^verbatim>\<open>a or b\<close> on optional strings.\<close>

definition py_or :: "string option \<Rightarrow> string option \<Rightarrow> string option" where
  "py_or a b = (case truthy a of Some s \<Rightarrow> Some s | None \<Rightarrow> b)"

text \<open>
  The exceptions that leave this class. The message of a \<^verbatim>\<open>StorageBackendError\<close> is
  kept as the place that raised it together with the values interpolated into its text.
  \<^verbatim>\<open>ValueError\<close> is what \<^verbatim>\<open>int(...)\<close> raises on a string that is no integer.
\<close>

datatype backend_cause =
    BucketNotSpecified
  | RegionOrEndpointRequired
  | MissingAccessKey
  | UploadFailed int string
  | DeleteFailed int string
  | DownloadFailed int string
  | AppendFailed int string
  | RequestFailed string

datatype error =
    StorageBackendError backend_cause
  | StorageNotFoundError string
  | ValueError

definition is_backend_error :: "error \<Rightarrow> bool" where
  "is_backend_error e = (case e of StorageBackendError _ \<Rightarrow> True | _ \<Rightarrow> False)"

definition is_not_found_error :: "error \<Rightarrow> bool" where
  "is_not_found_error e = (case e of StorageNotFoundError _ \<Rightarrow> True | _ \<Rightarrow> False)"

section \<open>Bucket and host resolution\<close>

text \<open>\<^verbatim>\<open>_get_bucket\<close>\<close>

definition get_bucket :: "storage_config \<Rightarrow> string option \<Rightarrow> error + string" where
  "get_bucket cfg bucket_name =
     (case truthy (py_or bucket_name (cfg_bucket_name cfg)) of
        None \<Rightarrow> Inl (StorageBackendError BucketNotSpecified)
      | Some bucket \<Rightarrow> Inr bucket)"

text \<open>\<^verbatim>\<open>_get_host\<close>\<close>

definition get_host :: "storage_config \<Rightarrow> string \<Rightarrow> error + string" where
  "get_host cfg bucket =
     (case truthy (endpoint cfg) of
        Some endpoint0 \<Rightarrow>
          (let endpoint1 =
                 (if startswith endpoint0 ''https://'' then drop 8 endpoint0
                  else if startswith endpoint0 ''http://'' then drop 7 endpoint0
                  else endpoint0);
               endpoint2 = rstrip_slash endpoint1
           in if str_contains bucket endpoint2 then Inr endpoint2
              else Inr (bucket @ ''.'' @ endpoint2))
      | None \<Rightarrow>
          (case truthy (region cfg) of
             None \<Rightarrow> Inl (StorageBackendError RegionOrEndpointRequired)
           | Some r \<Rightarrow> Inr (bucket @ ''.cos.'' @ r @ ''.myqcloud.com'')))"

section \<open>The signer\<close>

text \<open>
  SHA-1 and HMAC-SHA1 come from \<^verbatim>\<open>hashlib\<close> and \<^verbatim>\<open>hmac\<close>; the signer takes
  them as the two functions of a \<open>crypto\<close> record, each returning the hexadecimal digest.
  The reading of the clock, \<^verbatim>\<open>int(time.time())\<close>, is the argument \<open>now\<close>.
\<close>

record crypto =
  sha1_hexdigest :: "string \<Rightarrow> string"
  hmac_sha1_hexdigest :: "string \<Rightarrow> string \<Rightarrow> string"

text \<open>
  One \<^verbatim>\<open>key=value\<close> pair of a canonical string: the f-string that
  \<^verbatim>\<open>param_str\<close> and \<^verbatim>\<open>header_str\<close> share.
\<close>

definition canonical_pair :: "string \<times> string \<Rightarrow> string" where
  "canonical_pair kv = quote (lower (fst kv)) ''-_.~'' @ ''='' @ quote (snd kv) ''-_.~''"

text \<open>\<^verbatim>\<open>param_str\<close>: the pairs of \<^verbatim>\<open>sorted(params.items())\<close>, joined.\<close>

definition param_str :: "dict \<Rightarrow> string" where
  "param_str params = join ''&'' (map canonical_pair (sort params))"

text \<open>\<^verbatim>\<open>header_str\<close>: the same over the filtered headers.\<close>

definition header_str :: "dict \<Rightarrow> string" where
  "header_str headers = join ''&'' (map canonical_pair (sort (filter_headers headers)))"

definition http_string :: "string \<Rightarrow> string \<Rightarrow> dict \<Rightarrow> dict \<Rightarrow> string" where
  "http_string method path params headers =
     lower method @ [CHR 0x0A] @ path @ [CHR 0x0A] @ param_str params @ [CHR 0x0A] @
     header_str headers @ [CHR 0x0A]"

text \<open>The default of the argument \<^verbatim>\<open>expire\<close>.\<close>

definition default_expire :: int where
  "default_expire = 10000"

text \<open>
  \<^verbatim>\<open>_sign\<close>. The arguments \<open>params\<close>, \<open>headers\<close> and \<open>expire\<close> are optional in the
  source; \<open>None\<close> stands for an argument left out (and, for the two dictionaries, for
  \<^verbatim>\<open>None\<close> passed).
\<close>

definition sign ::
  "crypto \<Rightarrow> storage_config \<Rightarrow> int \<Rightarrow> string \<Rightarrow> string \<Rightarrow> dict option \<Rightarrow> dict option \<Rightarrow>
   int option \<Rightarrow> error + string" where
  "sign cr cfg now method path params_arg headers_arg expire_arg =
     (case (truthy (access_key_id cfg), truthy (access_key_secret cfg)) of
        (Some secret_id, Some secret_key) \<Rightarrow>
          (let expire = (case expire_arg of None \<Rightarrow> default_expire | Some e \<Rightarrow> e);
               params = (case params_arg of None \<Rightarrow> [] | Some p \<Rightarrow> p);
               headers = (case headers_arg of None \<Rightarrow> [] | Some h \<Rightarrow> h);
               sign_headers = filter_headers headers;
               http_str = http_string method path params headers;
               start_time = now - 60;
               end_time = start_time + expire + 60;
               sign_time = str_int start_time @ '';'' @ str_int end_time;
               sha1_hash = sha1_hexdigest cr http_str;
               string_to_sign =
                 ''sha1'' @ [CHR 0x0A] @ sign_time @ [CHR 0x0A] @ sha1_hash @ [CHR 0x0A];
               sign_key = hmac_sha1_hexdigest cr secret_key sign_time;
               signature = hmac_sha1_hexdigest cr sign_key string_to_sign
           in Inr (''q-sign-algorithm=sha1'' @
                   ''&q-ak='' @ secret_id @
                   ''&q-sign-time='' @ sign_time @
                   ''&q-key-time='' @ sign_time @
                   ''&q-header-list='' @ join '';'' (sort (map (lower \<circ> fst) sign_headers)) @
                   ''&q-url-param-list='' @ join '';'' (sort (map (lower \<circ> fst) params)) @
                   ''&q-signature='' @ signature))
      | _ \<Rightarrow> Inl (StorageBackendError MissingAccessKey))"

text \<open>
  The canonical strings as the specification words them, for comparison with
  \<open>param_str\<close> and \<open>header_str\<close>: the parameter pairs are ordered by their encoded
  (lower-cased) key, the header pairs by their lower-cased key.
\<close>

definition encoded_key :: "string \<times> string \<Rightarrow> string" where
  "encoded_key kv = quote (lower (fst kv)) ''-_.~''"

definition param_str_by_encoded_key :: "dict \<Rightarrow> string" where
  "param_str_by_encoded_key params = join ''&'' (map canonical_pair (sort_key encoded_key params))"

definition header_str_by_lower_key :: "dict \<Rightarrow> string" where
  "header_str_by_lower_key headers =
     join ''&'' (map canonical_pair (sort_key (lower \<circ> fst) (filter_headers headers)))"

section \<open>The HTTP client and its environment\<close>

text \<open>
  A request as the client hands it to \<^verbatim>\<open>httpx\<close>, and the part of a response the
  client reads: \<open>headers_get r name\<close> is \<^verbatim>\<open>response.headers.get(name)\<close>.
\<close>

record request =
  req_method :: string
  req_url :: string
  req_headers :: dict
  req_content :: bytes

record response =
  status_code :: int
  headers_get :: "string \<Rightarrow> string option"
  content :: bytes
  text_of :: string

text \<open>
  A call of \<^verbatim>\<open>client.get\<close>, \<^verbatim>\<open>put\<close>, \<^verbatim>\<open>post\<close>, \<^verbatim>\<open>head\<close> or \<^verbatim>\<open>delete\<close>
  returns a response or raises \<^verbatim>\<open>httpx.RequestError\<close> (its text is kept).
\<close>

datatype outcome = Response response | RequestError string

text \<open>
  What lies outside the class: the digests, the clock, the remote end and
  \<^verbatim>\<open>response.raise_for_status()\<close> of \<^verbatim>\<open>httpx\<close>. The clock and the remote end may
  depend on the requests sent so far, so both take that history. \<open>raises_for_status env s\<close>
  says whether \<^verbatim>\<open>raise_for_status\<close> raises \<^verbatim>\<open>HTTPStatusError\<close> on status \<open>s\<close>.
\<close>

record env =
  crypto_of :: crypto
  clock :: "request list \<Rightarrow> int"
  send :: "request list \<Rightarrow> request \<Rightarrow> outcome"
  raises_for_status :: "int \<Rightarrow> bool"

text \<open>
  \<^verbatim>\<open>raise_for_status\<close> as current \<^verbatim>\<open>httpx\<close> has it: it raises unless the status is
  a 2xx one.
\<close>

definition httpx_raises :: "int \<Rightarrow> bool" where
  "httpx_raises s = (\<not> (200 \<le> s \<and> s < 300))"

text \<open>Sending a request appends it to the history.\<close>

definition http_send :: "env \<Rightarrow> request list \<Rightarrow> request \<Rightarrow> outcome \<times> request list" where
  "http_send env h req = (send env h req, h @ [req])"

text \<open>
  \<^verbatim>\<open>int(s)\<close> on a string: blanks around, an optional sign, then decimal digits, which
  single underscores may separate; anything else raises \<^verbatim>\<open>ValueError\<close> (\<open>None\<close>).
  Digits outside ASCII and the bound that recent Python versions put on the number of
  digits are not modelled.
\<close>

definition is_space :: "char \<Rightarrow> bool" where
  "is_space c =
     (c \<in> set [CHR 0x20, CHR 0x09, CHR 0x0A, CHR 0x0B, CHR 0x0C, CHR 0x0D,
               CHR 0x1C, CHR 0x1D, CHR 0x1E, CHR 0x1F])"

definition is_digit :: "char \<Rightarrow> bool" where
  "is_digit c = (CHR ''0'' \<le> c \<and> c \<le> CHR ''9'')"

fun digits_value :: "nat \<Rightarrow> string \<Rightarrow> nat option" where
  "digits_value acc [] = Some acc"
| "digits_value acc (c # cs) =
     (if is_digit c then digits_value (10 * acc + (of_char c - 48)) cs
      else if c = CHR ''_'' \<and> (case cs of [] \<Rightarrow> False | d # _ \<Rightarrow> is_digit d)
      then digits_value acc cs
      else None)"

definition py_nat :: "string \<Rightarrow> nat option" where
  "py_nat s = (case s of [] \<Rightarrow> None | c # _ \<Rightarrow> if is_digit c then digits_value 0 s else None)"

definition py_int :: "string \<Rightarrow> int option" where
  "py_int s =
     (let t = rev (dropWhile is_space (rev (dropWhile is_space s)))
      in case t of
           [] \<Rightarrow> None
         | c # cs \<Rightarrow>
             if c = CHR ''-'' then map_option (\<lambda>n. - int n) (py_nat cs)
             else if c = CHR ''+'' then map_option int (py_nat cs)
             else map_option int (py_nat t))"

section \<open>Files and upload results\<close>

text \<open>
  \<^verbatim>\<open>StorageFile\<close> and \<^verbatim>\<open>UploadResult\<close> are declared in \<^verbatim>\<open>models.py\<close>. The data
  of a file is \<^verbatim>\<open>None\<close>, a byte string, or a stream whose \<^verbatim>\<open>read()\<close> returns the
  bytes given.
\<close>

datatype file_data = NoData | Bytes bytes | Stream bytes

record storage_file =
  file_object_name :: string
  file_data :: file_data
  file_content_type :: "string option"
  file_metadata :: "dict option"
  file_bucket_name :: "string option"

record upload_result =
  result_url :: string
  result_bucket_name :: string
  result_object_name :: string
  result_etag :: "string option"

text \<open>\<^verbatim>\<open>_read_file_data\<close>\<close>

definition read_file_data :: "storage_file \<Rightarrow> bytes" where
  "read_file_data file = (case file_data file of NoData \<Rightarrow> [] | Bytes b \<Rightarrow> b | Stream b \<Rightarrow> b)"

text \<open>\<^verbatim>\<open>s.strip('"')\<close>\<close>

definition strip_dquote :: "string \<Rightarrow> string" where
  "strip_dquote s =
     rev (dropWhile (\<lambda>c. c = CHR 0x22) (rev (dropWhile (\<lambda>c. c = CHR 0x22) s)))"

text \<open>
  The statement every operation repeats after building its headers: the security token
  is added when a session token is configured.
\<close>

definition add_session_token :: "storage_config \<Rightarrow> dict \<Rightarrow> dict" where
  "add_session_token cfg headers =
     (case truthy (session_token cfg) of
        Some t \<Rightarrow> AList.update ''x-cos-security-token'' t headers
      | None \<Rightarrow> headers)"

section \<open>URLs\<close>

text \<open>\<^verbatim>\<open>_build_url\<close>\<close>

definition build_url :: "storage_config \<Rightarrow> string \<Rightarrow> string \<Rightarrow> error + string" where
  "build_url cfg bucket object_name =
     (case get_host cfg bucket of
        Inl e \<Rightarrow> Inl e
      | Inr host \<Rightarrow> Inr (''https://'' @ host @ ''/'' @ quote object_name ''/-_.~''))"

text \<open>\<^verbatim>\<open>_get_presigned_url\<close>; \<open>now\<close> is the clock reading that \<^verbatim>\<open>_sign\<close> takes.\<close>

definition get_presigned_url ::
  "crypto \<Rightarrow> storage_config \<Rightarrow> int \<Rightarrow> string \<Rightarrow> string \<Rightarrow> string \<Rightarrow> int \<Rightarrow> error + string" where
  "get_presigned_url cr cfg now bucket object_name method expires_in =
     (case get_host cfg bucket of
        Inl e \<Rightarrow> Inl e
      | Inr host \<Rightarrow>
          (let path = (if \<not> startswith object_name ''/'' then ''/'' @ object_name
                       else object_name);
               encoded_path = quote path ''/-_.~'';
               headers = [(''host'', host)]
           in case sign cr cfg now method path (Some []) (Some headers) (Some expires_in) of
                Inl e \<Rightarrow> Inl e
              | Inr auth \<Rightarrow> Inr (''https://'' @ host @ encoded_path @ ''?'' @ auth)))"

section \<open>The operations\<close>

text \<open>
  Each operation takes the history \<open>h\<close> of the requests sent before it and returns its
  result with the history after it: \<open>Inl\<close> is the exception raised, and the history
  grows by one request per call of the HTTP client. Creating the client object
  (\<^verbatim>\<open>_ensure_client\<close>) sends nothing and is left out.
\<close>

text \<open>\<^verbatim>\<open>upload_file\<close>\<close>

definition upload_file ::
  "env \<Rightarrow> storage_config \<Rightarrow> request list \<Rightarrow> storage_file \<Rightarrow> string option \<Rightarrow>
   (error + upload_result) \<times> request list" where
  "upload_file env cfg h file bucket_name =
     (case get_bucket cfg (py_or bucket_name (file_bucket_name file)) of
        Inl e \<Rightarrow> (Inl e, h)
      | Inr bucket \<Rightarrow>
     (let data = read_file_data file in
      case get_host cfg bucket of
        Inl e \<Rightarrow> (Inl e, h)
      | Inr host \<Rightarrow>
     (let path = (if \<not> startswith (file_object_name file) ''/''
                  then ''/'' @ file_object_name file else file_object_name file);
          url = ''https://'' @ host @ quote path ''/-_.~'';
          headers0 = [(''host'', host), (''content-length'', str_int (int (length data)))];
          headers1 = (case truthy (file_content_type file) of
                        Some ct \<Rightarrow> AList.update ''content-type'' ct headers0
                      | None \<Rightarrow> headers0);
          headers2 = (case file_metadata file of
                        Some md \<Rightarrow>
                          fold (\<lambda>(k, v) hs. AList.update (''x-cos-meta-'' @ k) v hs) md headers1
                      | None \<Rightarrow> headers1);
          headers3 = add_session_token cfg headers2
      in case sign (crypto_of env) cfg (clock env h) ''PUT'' path (Some []) (Some headers3) None of
           Inl e \<Rightarrow> (Inl e, h)
         | Inr auth \<Rightarrow>
     (let headers4 = AList.update ''authorization'' auth headers3 in
      case http_send env h
             \<lparr>req_method = ''PUT'', req_url = url, req_headers = headers4, req_content = data\<rparr> of
        (RequestError m, h') \<Rightarrow> (Inl (StorageBackendError (RequestFailed m)), h')
      | (Response r, h') \<Rightarrow>
          if raises_for_status env (status_code r)
          then (Inl (StorageBackendError (UploadFailed (status_code r) (text_of r))), h')
          else
            (let etag = strip_dquote (case headers_get r ''etag'' of None \<Rightarrow> [] | Some t \<Rightarrow> t) in
             case build_url cfg bucket (file_object_name file) of
               Inl e \<Rightarrow> (Inl e, h')
             | Inr u \<Rightarrow>
                 (Inr \<lparr>result_url = u, result_bucket_name = bucket,
                       result_object_name = file_object_name file,
                       result_etag = truthy (Some etag)\<rparr>, h'))))))"

text \<open>\<^verbatim>\<open>delete_file\<close>\<close>

definition delete_file ::
  "env \<Rightarrow> storage_config \<Rightarrow> request list \<Rightarrow> string \<Rightarrow> string option \<Rightarrow>
   (error + unit) \<times> request list" where
  "delete_file env cfg h object_name bucket_name =
     (case get_bucket cfg bucket_name of
        Inl e \<Rightarrow> (Inl e, h)
      | Inr bucket \<Rightarrow>
     (case get_host cfg bucket of
        Inl e \<Rightarrow> (Inl e, h)
      | Inr host \<Rightarrow>
     (let path = (if \<not> startswith object_name ''/'' then ''/'' @ object_name else object_name);
          url = ''https://'' @ host @ quote path ''/-_.~'';
          headers = add_session_token cfg [(''host'', host)]
      in case sign (crypto_of env) cfg (clock env h) ''DELETE'' path (Some []) (Some headers) None of
           Inl e \<Rightarrow> (Inl e, h)
         | Inr auth \<Rightarrow>
     (case http_send env h
             \<lparr>req_method = ''DELETE'', req_url = url,
              req_headers = AList.update ''authorization'' auth headers, req_content = []\<rparr> of
        (RequestError m, h') \<Rightarrow> (Inl (StorageBackendError (RequestFailed m)), h')
      | (Response r, h') \<Rightarrow>
          if status_code r \<notin> {200, 204, 404} \<and> raises_for_status env (status_code r)
          then (Inl (StorageBackendError (DeleteFailed (status_code r) (text_of r))), h')
          else (Inr (), h')))))"

text \<open>\<^verbatim>\<open>get_file_url\<close>; \<^verbatim>\<open>if expires_in\<close> holds for an integer other than 0.\<close>

definition get_file_url ::
  "env \<Rightarrow> storage_config \<Rightarrow> request list \<Rightarrow> string \<Rightarrow> string option \<Rightarrow> int option \<Rightarrow>
   (error + string) \<times> request list" where
  "get_file_url env cfg h object_name bucket_name expires_in =
     (case get_bucket cfg bucket_name of
        Inl e \<Rightarrow> (Inl e, h)
      | Inr bucket \<Rightarrow>
          (case expires_in of
             Some e \<Rightarrow>
               if e \<noteq> 0
               then (get_presigned_url (crypto_of env) cfg (clock env h) bucket object_name
                       ''GET'' e, h)
               else (build_url cfg bucket object_name, h)
           | None \<Rightarrow> (build_url cfg bucket object_name, h)))"

text \<open>
  \<^verbatim>\<open>file_exists\<close>. No call inside its \<^verbatim>\<open>try\<close> raises \<^verbatim>\<open>HTTPStatusError\<close>, so
  that handler has no branch here.
\<close>

definition file_exists ::
  "env \<Rightarrow> storage_config \<Rightarrow> request list \<Rightarrow> string \<Rightarrow> string option \<Rightarrow>
   (error + bool) \<times> request list" where
  "file_exists env cfg h object_name bucket_name =
     (case get_bucket cfg bucket_name of
        Inl e \<Rightarrow> (Inl e, h)
      | Inr bucket \<Rightarrow>
     (case get_host cfg bucket of
        Inl e \<Rightarrow> (Inl e, h)
      | Inr host \<Rightarrow>
     (let path = (if \<not> startswith object_name ''/'' then ''/'' @ object_name else object_name);
          url = ''https://'' @ host @ quote path ''/-_.~'';
          headers = add_session_token cfg [(''host'', host)]
      in case sign (crypto_of env) cfg (clock env h) ''HEAD'' path (Some []) (Some headers) None of
           Inl e \<Rightarrow> (Inl e, h)
         | Inr auth \<Rightarrow>
     (case http_send env h
             \<lparr>req_method = ''HEAD'', req_url = url,
              req_headers = AList.update ''authorization'' auth headers, req_content = []\<rparr> of
        (RequestError m, h') \<Rightarrow> (Inr False, h')
      | (Response r, h') \<Rightarrow> (Inr (status_code r = 200), h')))))"

text \<open>\<^verbatim>\<open>download_file\<close>\<close>

definition download_file ::
  "env \<Rightarrow> storage_config \<Rightarrow> request list \<Rightarrow> string \<Rightarrow> string option \<Rightarrow>
   (error + bytes) \<times> request list" where
  "download_file env cfg h object_name bucket_name =
     (case get_bucket cfg bucket_name of
        Inl e \<Rightarrow> (Inl e, h)
      | Inr bucket \<Rightarrow>
     (case get_host cfg bucket of
        Inl e \<Rightarrow> (Inl e, h)
      | Inr host \<Rightarrow>
     (let path = (if \<not> startswith object_name ''/'' then ''/'' @ object_name else object_name);
          url = ''https://'' @ host @ quote path ''/-_.~'';
          headers = add_session_token cfg [(''host'', host)]
      in case sign (crypto_of env) cfg (clock env h) ''GET'' path (Some []) (Some headers) None of
           Inl e \<Rightarrow> (Inl e, h)
         | Inr auth \<Rightarrow>
     (case http_send env h
             \<lparr>req_method = ''GET'', req_url = url,
              req_headers = AList.update ''authorization'' auth headers, req_content = []\<rparr> of
        (RequestError m, h') \<Rightarrow> (Inl (StorageBackendError (RequestFailed m)), h')
      | (Response r, h') \<Rightarrow>
          if status_code r = 404 then (Inl (StorageNotFoundError object_name), h')
          else if raises_for_status env (status_code r)
          then (if status_code r = 404 then (Inl (StorageNotFoundError object_name), h')
                else (Inl (StorageBackendError (DownloadFailed (status_code r) (text_of r))), h'))
          else (Inr (content r), h')))))"

text \<open>\<^verbatim>\<open>_get_file_size\<close>\<close>

definition get_file_size ::
  "env \<Rightarrow> storage_config \<Rightarrow> request list \<Rightarrow> string \<Rightarrow> string \<Rightarrow>
   (error + int) \<times> request list" where
  "get_file_size env cfg h bucket object_name =
     (case get_host cfg bucket of
        Inl e \<Rightarrow> (Inl e, h)
      | Inr host \<Rightarrow>
     (let path = (if \<not> startswith object_name ''/'' then ''/'' @ object_name else object_name);
          url = ''https://'' @ host @ quote path ''/-_.~'';
          headers = add_session_token cfg [(''host'', host)]
      in case sign (crypto_of env) cfg (clock env h) ''HEAD'' path (Some []) (Some headers) None of
           Inl e \<Rightarrow> (Inl e, h)
         | Inr auth \<Rightarrow>
     (case http_send env h
             \<lparr>req_method = ''HEAD'', req_url = url,
              req_headers = AList.update ''authorization'' auth headers, req_content = []\<rparr> of
        (RequestError m, h') \<Rightarrow> (Inr 0, h')
      | (Response r, h') \<Rightarrow>
          if status_code r = 200
          then (case truthy (headers_get r ''content-length'') of
                  None \<Rightarrow> (Inr 0, h')
                | Some content_length \<Rightarrow>
                    (case py_int content_length of
                       None \<Rightarrow> (Inl ValueError, h')
                     | Some n \<Rightarrow> (Inr n, h')))
          else (Inr 0, h'))))"

text \<open>\<^verbatim>\<open>append_file\<close>\<close>

definition append_file ::
  "env \<Rightarrow> storage_config \<Rightarrow> request list \<Rightarrow> string \<Rightarrow> bytes \<Rightarrow> string option \<Rightarrow> int option \<Rightarrow>
   (error + int) \<times> request list" where
  "append_file env cfg h object_name data bucket_name position_arg =
     (case get_bucket cfg bucket_name of
        Inl e \<Rightarrow> (Inl e, h)
      | Inr bucket \<Rightarrow>
     (case (case position_arg of
              None \<Rightarrow> get_file_size env cfg h bucket object_name
            | Some p \<Rightarrow> (Inr p, h)) of
        (Inl e, h1) \<Rightarrow> (Inl e, h1)
      | (Inr position, h1) \<Rightarrow>
     (case get_host cfg bucket of
        Inl e \<Rightarrow> (Inl e, h1)
      | Inr host \<Rightarrow>
     (let path = (if \<not> startswith object_name ''/'' then ''/'' @ object_name else object_name);
          params = [(''append'', []), (''position'', str_int position)];
          url = ''https://'' @ host @ quote path ''/-_.~'' @ ''?append=&position='' @
                str_int position;
          headers =
            add_session_token cfg
              [(''host'', host), (''content-length'', str_int (int (length data)))]
      in case sign (crypto_of env) cfg (clock env h1) ''POST'' path (Some params) (Some headers)
                None of
           Inl e \<Rightarrow> (Inl e, h1)
         | Inr auth \<Rightarrow>
     (case http_send env h1
             \<lparr>req_method = ''POST'', req_url = url,
              req_headers = AList.update ''authorization'' auth headers, req_content = data\<rparr> of
        (RequestError m, h2) \<Rightarrow> (Inl (StorageBackendError (RequestFailed m)), h2)
      | (Response r, h2) \<Rightarrow>
          if raises_for_status env (status_code r)
          then (Inl (StorageBackendError (AppendFailed (status_code r) (text_of r))), h2)
          else
            (case truthy (headers_get r ''x-cos-next-append-position'') of
               Some next_position \<Rightarrow>
                 (case py_int next_position of
                    None \<Rightarrow> (Inl ValueError, h2)
                  | Some n \<Rightarrow> (Inr n, h2))
             | None \<Rightarrow> (Inr (position + int (length data)), h2)))))))"

section \<open>Signed requests\<close>

text \<open>
  \<open>signed_request env cfg h bucket method path params suffix req\<close>: the request \<open>req\<close>
  has the given method; its URL is \<^verbatim>\<open>https://\<close>, the host that \<^verbatim>\<open>_get_host\<close>
  resolves for \<open>bucket\<close>, the percent-encoded \<open>path\<close> (slashes kept) and \<open>suffix\<close>; its
  last header is \<^verbatim>\<open>authorization\<close>, the headers \<open>hs\<close> before it carry that host as
  \<^verbatim>\<open>host\<close>, and the authorization is what the signer returns for this method, this
  \<open>path\<close>, these \<open>params\<close> and the headers \<open>hs\<close>, at the clock reading taken after the
  history \<open>h\<close>.
\<close>

definition signed_request ::
  "env \<Rightarrow> storage_config \<Rightarrow> request list \<Rightarrow> string \<Rightarrow> string \<Rightarrow> string \<Rightarrow> dict \<Rightarrow> string \<Rightarrow>
   request \<Rightarrow> bool" where
  "signed_request env cfg h bucket method path params suffix req =
     (\<exists>host hs auth.
        get_host cfg bucket = Inr host \<and>
        req_method req = method \<and>
        req_url req = ''https://'' @ host @ quote path ''/-_.~'' @ suffix \<and>
        map_of hs ''host'' = Some host \<and>
        sign (crypto_of env) cfg (clock env h) method path (Some params) (Some hs) None =
          Inr auth \<and>
        req_headers req = hs @ [(''authorization'', auth)])"

section \<open>Example data\<close>

text \<open>
  Stand-ins for the digests that keep their arguments readable, a configuration with
  credentials, region and default bucket, and an environment that answers a HEAD request
  with one outcome and every other request with another.
\<close>

definition example_crypto :: crypto where
  "example_crypto =
     \<lparr>sha1_hexdigest = (\<lambda>m. ''sha1<'' @ m @ ''>''),
      hmac_sha1_hexdigest = (\<lambda>k m. ''hmac<'' @ k @ ''|'' @ m @ ''>'')\<rparr>"

definition example_config :: storage_config where
  "example_config =
     \<lparr>access_key_id = Some ''AKID'', access_key_secret = Some ''secret'',
      session_token = None, endpoint = None, region = Some ''ap-guangzhou'',
      cfg_bucket_name = Some ''b1''\<rparr>"

definition example_env :: "outcome \<Rightarrow> outcome \<Rightarrow> env" where
  "example_env head_outcome other_outcome =
     \<lparr>crypto_of = example_crypto,
      clock = (\<lambda>h. 1700000000),
      send = (\<lambda>h req. if req_method req = ''HEAD'' then head_outcome else other_outcome),
      raises_for_status = httpx_raises\<rparr>"

definition example_response :: "int \<Rightarrow> (string \<Rightarrow> string option) \<Rightarrow> bytes \<Rightarrow> response" where
  "example_response s hs body =
     \<lparr>status_code = s, headers_get = hs, content = body, text_of = body\<rparr>"

text \<open>A response without headers, and an optional string that counts as not given.\<close>

definition no_headers :: "string \<Rightarrow> string option" where
  "no_headers name = None"

definition missing :: "string option \<Rightarrow> bool" where
  "missing x = (x = None \<or> x = Some [])"

definition example_file :: storage_file where
  "example_file =
     \<lparr>file_object_name = ''docs/a b.txt'', file_data = Bytes ''hello'',
      file_content_type = Some ''text/plain'', file_metadata = Some [(''owner'', ''ann'')],
      file_bucket_name = None\<rparr>"

section \<open>Facts about strings and dictionaries\<close>

text \<open>The equations that evaluate the definitions on literals.\<close>

lemmas eval_simps =
  str_int_def str_nat.simps digit_char_def char_of_def bit_Suc_0_iff lower_def lower_char_def
  quote_def quote_char_def always_safe_def hex_digit_def startswith_def
  truthy_def py_or_def filter_headers_def signed_header_def valid_headers_def
  canonical_pair_def param_str_def header_str_def http_string_def default_expire_def
  example_crypto_def example_config_def example_env_def example_response_def
  no_headers_def missing_def example_file_def read_file_data_def strip_dquote_def
  httpx_raises_def http_send_def add_session_token_def rstrip_slash_def
  get_bucket_def get_host_def build_url_def

lemma update_fresh: "k \<notin> fst ` set al \<Longrightarrow> AList.update k v al = al @ [(k, v)]"
  by (induction al) auto

lemma fold_update_filter:
  "distinct (map fst hs) \<Longrightarrow> fst ` set acc \<inter> fst ` set hs = {} \<Longrightarrow>
   fold (\<lambda>(k, v) result. if P k then AList.update k v result else result) hs acc =
   acc @ filter (\<lambda>(k, v). P k) hs"
proof (induction hs arbitrary: acc)
  case Nil
  then show ?case by simp
next
  case (Cons x hs)
  obtain k v where x: "x = (k, v)" by (cases x)
  from Cons.prems have fresh: "k \<notin> fst ` set acc" and d: "distinct (map fst hs)"
    and knot: "k \<notin> fst ` set hs" and disj: "fst ` set acc \<inter> fst ` set hs = {}"
    by (auto simp: x)
  show ?case
  proof (cases "P k")
    case True
    have "fst ` set (acc @ [(k, v)]) \<inter> fst ` set hs = {}"
      using disj knot by auto
    from Cons.IH [OF d this] True fresh show ?thesis
      by (simp add: x update_fresh)
  next
    case False
    with Cons.IH [OF d disj] show ?thesis by (simp add: x)
  qed
qed

lemma filter_headers_filter:
  "is_dict headers \<Longrightarrow> filter_headers headers = filter (\<lambda>(k, v). signed_header k) headers"
  using fold_update_filter [of headers "[]" signed_header]
  by (simp add: filter_headers_def is_dict_def)

lemma startswith_iff: "startswith s p \<longleftrightarrow> (\<exists>r. s = p @ r)"
  unfolding startswith_def
  by (metis append_eq_conv_conj append_take_drop_id)

lemma str_contains_iff: "str_contains sub s \<longleftrightarrow> (\<exists>p q. s = p @ sub @ q)"
proof (induction s)
  case Nil
  then show ?case by auto
next
  case (Cons c cs)
  show ?case
  proof
    assume "str_contains sub (c # cs)"
    then consider "startswith (c # cs) sub" | "str_contains sub cs" by auto
    then show "\<exists>p q. c # cs = p @ sub @ q"
    proof cases
      case 1
      then obtain r where "c # cs = sub @ r" by (auto simp: startswith_iff)
      then have "c # cs = [] @ sub @ r" by simp
      then show ?thesis by blast
    next
      case 2
      with Cons.IH obtain p q where "cs = p @ sub @ q" by blast
      then have "c # cs = (c # p) @ sub @ q" by simp
      then show ?thesis by blast
    qed
  next
    assume "\<exists>p q. c # cs = p @ sub @ q"
    then obtain p q where pq: "c # cs = p @ sub @ q" by blast
    show "str_contains sub (c # cs)"
    proof (cases p)
      case Nil
      with pq have "startswith (c # cs) sub" by (auto simp: startswith_iff)
      then show ?thesis by simp
    next
      case (Cons a p')
      with pq have "cs = p' @ sub @ q" by simp
      with Cons.IH have "str_contains sub cs" by blast
      then show ?thesis by simp
    qed
  qed
qed

lemma rstrip_slash_append:
  "core = [] \<or> last core \<noteq> CHR ''/'' \<Longrightarrow> rstrip_slash (core @ replicate n (CHR ''/'')) = core"
proof -
  assume a: "core = [] \<or> last core \<noteq> CHR ''/''"
  have "dropWhile (\<lambda>c. c = CHR ''/'') (replicate n (CHR ''/'') @ rev core) =
        dropWhile (\<lambda>c. c = CHR ''/'') (rev core)"
    by (rule dropWhile_append2) simp
  also have "\<dots> = rev core"
    using a by (cases "rev core") (auto simp: last_rev[symmetric] simp del: last_rev)
  finally show ?thesis by (simp add: rstrip_slash_def)
qed


lemma truthy_Some: "s \<noteq> [] \<Longrightarrow> truthy (Some s) = Some s"
  by (simp add: truthy_def)

lemma get_host_endpoint:
  assumes ep: "endpoint cfg = Some (scheme @ core @ replicate n (CHR ''/''))"
    and ne: "scheme @ core @ replicate n (CHR ''/'') \<noteq> []"
    and sch: "scheme = ''https://'' \<or> scheme = ''http://'' \<or>
              scheme = [] \<and> \<not> (\<exists>r. core @ replicate n (CHR ''/'') = ''https://'' @ r) \<and>
              \<not> (\<exists>r. core @ replicate n (CHR ''/'') = ''http://'' @ r)"
    and core: "core = [] \<or> last core \<noteq> CHR ''/''"
  shows "get_host cfg bucket =
         Inr (if (\<exists>p q. core = p @ bucket @ q) then core else bucket @ ''.'' @ core)"
proof -
  let ?ep = "scheme @ core @ replicate n (CHR ''/'')"
  have stripped:
    "(if startswith ?ep ''https://'' then drop 8 ?ep
      else if startswith ?ep ''http://'' then drop 7 ?ep else ?ep) =
     core @ replicate n (CHR ''/'')"
    using sch by (auto simp: startswith_iff)
  show ?thesis
    unfolding get_host_def ep truthy_Some [OF ne]
    by (simp only: option.case Let_def stripped rstrip_slash_append [OF core] str_contains_iff
          if_distrib [of Inr, symmetric])
qed

section \<open>Host resolution\<close>

text \<open>
  C3. Every configured (non-empty) endpoint is a scheme \<^verbatim>\<open>https://\<close>, \<^verbatim>\<open>http://\<close> or
  none, then a core that does not end in a slash, then some number of slashes. The
  resolver returns the core unchanged when the bucket name occurs in it as a substring,
  and \<^verbatim>\<open>{bucket}.{core}\<close> otherwise. With no endpoint and a region it returns
  \<^verbatim>\<open>{bucket}.cos.{region}.myqcloud.com\<close>; with neither it fails with an error. The
  three examples of the specification follow.
\<close>

theorem get_host_resolution:
  "(endpoint cfg = Some (scheme @ core @ replicate n (CHR ''/'')) \<and>
    scheme @ core @ replicate n (CHR ''/'') \<noteq> [] \<and>
    (scheme = ''https://'' \<or> scheme = ''http://'' \<or>
     scheme = [] \<and> \<not> (\<exists>r. core @ replicate n (CHR ''/'') = ''https://'' @ r) \<and>
     \<not> (\<exists>r. core @ replicate n (CHR ''/'') = ''http://'' @ r)) \<and>
    (core = [] \<or> last core \<noteq> CHR ''/'')
    \<longrightarrow> get_host cfg bucket =
        Inr (if (\<exists>p q. core = p @ bucket @ q) then core else bucket @ ''.'' @ core)) \<and>
   ((endpoint cfg = None \<or> endpoint cfg = Some []) \<and> region cfg = Some r \<and> r \<noteq> []
    \<longrightarrow> get_host cfg bucket = Inr (bucket @ ''.cos.'' @ r @ ''.myqcloud.com'')) \<and>
   ((endpoint cfg = None \<or> endpoint cfg = Some []) \<and> (region cfg = None \<or> region cfg = Some [])
    \<longrightarrow> (\<exists>e. get_host cfg bucket = Inl e)) \<and>
   get_host (cfg\<lparr>endpoint := Some ''https://accel.example.com''\<rparr>) ''b1'' =
     Inr ''b1.accel.example.com'' \<and>
   get_host (cfg\<lparr>endpoint := Some ''https://b1.accel.example.com''\<rparr>) ''b1'' =
     Inr ''b1.accel.example.com'' \<and>
   get_host (cfg\<lparr>endpoint := None, region := Some ''ap-guangzhou''\<rparr>) ''b1'' =
     Inr ''b1.cos.ap-guangzhou.myqcloud.com''"
proof (intro conjI impI)
  assume "endpoint cfg = Some (scheme @ core @ replicate n (CHR ''/'')) \<and>
    scheme @ core @ replicate n (CHR ''/'') \<noteq> [] \<and>
    (scheme = ''https://'' \<or> scheme = ''http://'' \<or>
     scheme = [] \<and> \<not> (\<exists>r. core @ replicate n (CHR ''/'') = ''https://'' @ r) \<and>
     \<not> (\<exists>r. core @ replicate n (CHR ''/'') = ''http://'' @ r)) \<and>
    (core = [] \<or> last core \<noteq> CHR ''/'')"
  then show "get_host cfg bucket =
        Inr (if (\<exists>p q. core = p @ bucket @ q) then core else bucket @ ''.'' @ core)"
    using get_host_endpoint [of cfg scheme core n bucket] by blast
next
  assume "(endpoint cfg = None \<or> endpoint cfg = Some []) \<and> region cfg = Some r \<and> r \<noteq> []"
  then show "get_host cfg bucket = Inr (bucket @ ''.cos.'' @ r @ ''.myqcloud.com'')"
    by (auto simp: get_host_def truthy_def)
next
  assume "(endpoint cfg = None \<or> endpoint cfg = Some []) \<and>
          (region cfg = None \<or> region cfg = Some [])"
  then show "\<exists>e. get_host cfg bucket = Inl e"
    by (auto simp: get_host_def truthy_def)
next
  show "get_host (cfg\<lparr>endpoint := Some ''https://accel.example.com''\<rparr>) ''b1'' =
     Inr ''b1.accel.example.com''"
    by (simp add: get_host_def truthy_def startswith_def rstrip_slash_def)
next
  show "get_host (cfg\<lparr>endpoint := Some ''https://b1.accel.example.com''\<rparr>) ''b1'' =
     Inr ''b1.accel.example.com''"
    by (simp add: get_host_def truthy_def startswith_def rstrip_slash_def)
next
  show "get_host (cfg\<lparr>endpoint := None, region := Some ''ap-guangzhou''\<rparr>) ''b1'' =
     Inr ''b1.cos.ap-guangzhou.myqcloud.com''"
    by (simp add: get_host_def truthy_def)
qed

text \<open>The theorem at an endpoint with scheme and two trailing slashes, at a region, and at neither.\<close>

theorem get_host_resolution_witness:
  "get_host \<lparr>access_key_id = None, access_key_secret = None, session_token = None,
             endpoint = Some ''http://cdn.example.org//'', region = None,
             cfg_bucket_name = None\<rparr> ''media'' = Inr ''media.cdn.example.org'' \<and>
   get_host \<lparr>access_key_id = None, access_key_secret = None, session_token = None,
             endpoint = Some [], region = Some ''ap-beijing'',
             cfg_bucket_name = None\<rparr> ''media'' = Inr ''media.cos.ap-beijing.myqcloud.com'' \<and>
   (\<exists>e. get_host \<lparr>access_key_id = None, access_key_secret = None, session_token = None,
             endpoint = None, region = Some [], cfg_bucket_name = None\<rparr> ''media'' = Inl e)"
proof -
  let ?c1 = "\<lparr>access_key_id = None, access_key_secret = None, session_token = None,
             endpoint = Some ''http://cdn.example.org//'', region = None,
             cfg_bucket_name = None\<rparr>"
  let ?c2 = "\<lparr>access_key_id = None, access_key_secret = None, session_token = None,
             endpoint = Some [], region = Some ''ap-beijing'', cfg_bucket_name = None\<rparr>"
  let ?c3 = "\<lparr>access_key_id = None, access_key_secret = None, session_token = None,
             endpoint = None, region = Some [], cfg_bucket_name = None\<rparr>"
  have nosub: "\<not> str_contains ''media'' ''cdn.example.org''"
    by (simp add: startswith_def)
  have a: "get_host ?c1 ''media'' = Inr ''media.cdn.example.org''"
    using get_host_resolution [of ?c1 "''http://''" "''cdn.example.org''" 2 "''media''"] nosub
    by (simp add: numeral_2_eq_2 str_contains_iff)
  have b: "get_host ?c2 ''media'' = Inr ''media.cos.ap-beijing.myqcloud.com''"
    using get_host_resolution [of ?c2 _ _ _ "''media''" "''ap-beijing''"] by simp
  have c: "\<exists>e. get_host ?c3 ''media'' = Inl e"
    using get_host_resolution [of ?c3 _ _ _ "''media''"] by simp
  from a b c show ?thesis by blast
qed

section \<open>Header filtering\<close>

text \<open>
  C4. For every headers map, the filter retains exactly the entries whose lower-cased name
  is in the fixed allow-list or starts with \<^verbatim>\<open>x-cos-\<close>, in their order, and drops every
  other header; \<^verbatim>\<open>x-custom-foo\<close> is dropped while \<^verbatim>\<open>x-cos-meta-foo\<close> and
  \<^verbatim>\<open>content-type\<close> are kept.
\<close>

theorem filter_headers_allow_list:
  "(is_dict headers \<longrightarrow>
      filter_headers headers =
      filter (\<lambda>(k, v).
          lower k \<in> {''host'', ''content-type'', ''content-md5'', ''content-length'',
                      ''cache-control'', ''content-disposition'', ''content-encoding'',
                      ''expect'', ''expires'', ''if-match'', ''if-modified-since'',
                      ''if-none-match'', ''if-unmodified-since'', ''origin'', ''range'',
                      ''transfer-encoding''} \<or>
          (\<exists>rest. lower k = ''x-cos-'' @ rest)) headers) \<and>
   filter_headers [(''x-custom-foo'', a), (''x-cos-meta-foo'', b), (''content-type'', c)] =
     [(''x-cos-meta-foo'', b), (''content-type'', c)]"
proof (intro conjI impI)
  have pred: "signed_header k \<longleftrightarrow>
     lower k \<in> {''host'', ''content-type'', ''content-md5'', ''content-length'',
                 ''cache-control'', ''content-disposition'', ''content-encoding'',
                 ''expect'', ''expires'', ''if-match'', ''if-modified-since'',
                 ''if-none-match'', ''if-unmodified-since'', ''origin'', ''range'',
                 ''transfer-encoding''} \<or>
     (\<exists>rest. lower k = ''x-cos-'' @ rest)" for k
    unfolding signed_header_def Let_def valid_headers_def startswith_iff by auto
  assume "is_dict headers"
  then show "filter_headers headers =
      filter (\<lambda>(k, v).
          lower k \<in> {''host'', ''content-type'', ''content-md5'', ''content-length'',
                      ''cache-control'', ''content-disposition'', ''content-encoding'',
                      ''expect'', ''expires'', ''if-match'', ''if-modified-since'',
                      ''if-none-match'', ''if-unmodified-since'', ''origin'', ''range'',
                      ''transfer-encoding''} \<or>
          (\<exists>rest. lower k = ''x-cos-'' @ rest)) headers"
    by (simp add: filter_headers_filter pred)
next
  have l1: "lower ''x-custom-foo'' = ''x-custom-foo''" by code_simp
  have l2: "lower ''x-cos-meta-foo'' = ''x-cos-meta-foo''" by code_simp
  have l3: "lower ''content-type'' = ''content-type''" by code_simp
  show "filter_headers [(''x-custom-foo'', a), (''x-cos-meta-foo'', b), (''content-type'', c)] =
     [(''x-cos-meta-foo'', b), (''content-type'', c)]"
    by (simp add: filter_headers_def signed_header_def l1 l2 l3 valid_headers_def startswith_def)
qed

text \<open>The theorem at a map with mixed-case names.\<close>

theorem filter_headers_allow_list_witness:
  "is_dict [(''Host'', ''h''), (''X-Trace'', ''t''), (''x-cos-acl'', ''private'')] \<and>
   filter_headers [(''Host'', ''h''), (''X-Trace'', ''t''), (''x-cos-acl'', ''private'')] =
     [(''Host'', ''h''), (''x-cos-acl'', ''private'')]"
proof -
  have d: "is_dict [(''Host'', ''h''), (''X-Trace'', ''t''), (''x-cos-acl'', ''private'')]"
    by (simp add: is_dict_def)
  have l1: "lower ''Host'' = ''host''" by code_simp
  have l2: "lower ''X-Trace'' = ''x-trace''" by code_simp
  have l3: "lower ''x-cos-acl'' = ''x-cos-acl''" by code_simp
  from d filter_headers_allow_list
         [of "[(''Host'', ''h''), (''X-Trace'', ''t''), (''x-cos-acl'', ''private'')]"]
  show ?thesis by (simp add: l1 l2 l3)
qed

section \<open>The canonical strings\<close>

text \<open>
  C1. The claim has the pairs of the canonical query string sorted by encoded key and
  those of the canonical header string sorted by lower-cased key. The signer sorts the
  items by their keys as given and lower-cases afterwards, while it sorts the names of
  \<^verbatim>\<open>q-header-list\<close> and \<^verbatim>\<open>q-url-param-list\<close> after lower-casing. At the
  parameters \<^verbatim>\<open>{"B": "1", "a": "2"}\<close> the canonical query string is \<^verbatim>\<open>b=1&a=2\<close>,
  not \<^verbatim>\<open>a=2&b=1\<close>; at the headers of an upload with the metadata keys \<^verbatim>\<open>B\<close> and
  \<^verbatim>\<open>a\<close> the canonical header string ends in \<^verbatim>\<open>x-cos-meta-b=1&x-cos-meta-a=2\<close>
  while the header list reads \<^verbatim>\<open>x-cos-meta-a;x-cos-meta-b\<close>.
\<close>

theorem canonical_strings_sorted_before_lowering:
  "param_str [(''B'', ''1''), (''a'', ''2'')] = ''b=1&a=2'' \<and>
   param_str_by_encoded_key [(''B'', ''1''), (''a'', ''2'')] = ''a=2&b=1'' \<and>
   join '';'' (sort (map (lower \<circ> fst) [(''B'', ''1''), (''a'', ''2'')])) = ''a;b'' \<and>
   header_str [(''host'', ''h''), (''content-length'', ''1''), (''x-cos-meta-B'', ''1''),
               (''x-cos-meta-a'', ''2'')] =
     ''content-length=1&host=h&x-cos-meta-b=1&x-cos-meta-a=2'' \<and>
   header_str_by_lower_key [(''host'', ''h''), (''content-length'', ''1''),
               (''x-cos-meta-B'', ''1''), (''x-cos-meta-a'', ''2'')] =
     ''content-length=1&host=h&x-cos-meta-a=2&x-cos-meta-b=1'' \<and>
   join '';'' (sort (map (lower \<circ> fst) (filter_headers [(''host'', ''h''),
               (''content-length'', ''1''), (''x-cos-meta-B'', ''1''),
               (''x-cos-meta-a'', ''2'')]))) =
     ''content-length;host;x-cos-meta-a;x-cos-meta-b'' \<and>
   http_string ''PUT'' ''/k'' [(''B'', ''1''), (''a'', ''2'')]
     [(''host'', ''h''), (''content-length'', ''1''), (''x-cos-meta-B'', ''1''),
      (''x-cos-meta-a'', ''2'')] =
     ''put'' @ [CHR 0x0A] @ ''/k'' @ [CHR 0x0A] @ ''b=1&a=2'' @ [CHR 0x0A] @
     ''content-length=1&host=h&x-cos-meta-b=1&x-cos-meta-a=2'' @ [CHR 0x0A]"
  by (simp add: eval_simps param_str_by_encoded_key_def header_str_by_lower_key_def
        encoded_key_def)

section \<open>The authorization value\<close>

text \<open>
  C2. Every successful call of the signer returns the fields
  \<^verbatim>\<open>q-sign-algorithm=sha1\<close>, \<^verbatim>\<open>q-ak\<close>, \<^verbatim>\<open>q-sign-time\<close>, \<^verbatim>\<open>q-key-time\<close>,
  \<^verbatim>\<open>q-header-list\<close>, \<^verbatim>\<open>q-url-param-list\<close> and \<^verbatim>\<open>q-signature\<close> in this order,
  joined with \<^verbatim>\<open>&\<close>. Both times carry the window \<^verbatim>\<open>{start};{end}\<close> with start the
  current time minus 60 and end = start + expire + 60, expire being 10000 when left out.
  The two lists are the sorted lower-cased names of the filtered headers and of the
  parameters, joined with semicolons, and a list field is present with an empty right-hand
  side when its map is empty.
\<close>

theorem sign_authorization_fields:
  assumes ok: "sign cr cfg now method path params_arg headers_arg expire_arg = Inr auth"
  shows "\<exists>secret_id secret_key.
     access_key_id cfg = Some secret_id \<and> secret_id \<noteq> [] \<and>
     access_key_secret cfg = Some secret_key \<and> secret_key \<noteq> [] \<and>
     (let params = (case params_arg of None \<Rightarrow> [] | Some p \<Rightarrow> p);
          headers = (case headers_arg of None \<Rightarrow> [] | Some hs \<Rightarrow> hs);
          expire = (case expire_arg of None \<Rightarrow> 10000 | Some e \<Rightarrow> e);
          start_time = now - 60;
          end_time = start_time + expire + 60;
          window = str_int start_time @ '';'' @ str_int end_time;
          header_list = join '';'' (sort (map (lower \<circ> fst) (filter_headers headers)));
          param_list = join '';'' (sort (map (lower \<circ> fst) params));
          signature =
            hmac_sha1_hexdigest cr (hmac_sha1_hexdigest cr secret_key window)
              (''sha1'' @ [CHR 0x0A] @ window @ [CHR 0x0A] @
               sha1_hexdigest cr (http_string method path params headers) @ [CHR 0x0A])
      in auth =
           join ''&''
             [''q-sign-algorithm=sha1'', ''q-ak='' @ secret_id, ''q-sign-time='' @ window,
              ''q-key-time='' @ window, ''q-header-list='' @ header_list,
              ''q-url-param-list='' @ param_list, ''q-signature='' @ signature] \<and>
         (filter_headers headers = [] \<longrightarrow> ''q-header-list='' @ header_list = ''q-header-list='') \<and>
         (params = [] \<longrightarrow> ''q-url-param-list='' @ param_list = ''q-url-param-list=''))"
proof -
  from ok obtain secret_id secret_key
    where id: "truthy (access_key_id cfg) = Some secret_id"
      and key: "truthy (access_key_secret cfg) = Some secret_key"
    by (cases "truthy (access_key_id cfg)"; cases "truthy (access_key_secret cfg)")
       (simp_all add: sign_def)
  from id have id': "access_key_id cfg = Some secret_id" "secret_id \<noteq> []"
    by (auto simp: truthy_def split: option.splits if_splits)
  from key have key': "access_key_secret cfg = Some secret_key" "secret_key \<noteq> []"
    by (auto simp: truthy_def split: option.splits if_splits)
  from ok have "auth = (let params = (case params_arg of None \<Rightarrow> [] | Some p \<Rightarrow> p);
          headers = (case headers_arg of None \<Rightarrow> [] | Some hs \<Rightarrow> hs);
          expire = (case expire_arg of None \<Rightarrow> 10000 | Some e \<Rightarrow> e);
          start_time = now - 60;
          end_time = start_time + expire + 60;
          window = str_int start_time @ '';'' @ str_int end_time;
          header_list = join '';'' (sort (map (lower \<circ> fst) (filter_headers headers)));
          param_list = join '';'' (sort (map (lower \<circ> fst) params));
          signature =
            hmac_sha1_hexdigest cr (hmac_sha1_hexdigest cr secret_key window)
              (''sha1'' @ [CHR 0x0A] @ window @ [CHR 0x0A] @
               sha1_hexdigest cr (http_string method path params headers) @ [CHR 0x0A])
      in join ''&''
             [''q-sign-algorithm=sha1'', ''q-ak='' @ secret_id, ''q-sign-time='' @ window,
              ''q-key-time='' @ window, ''q-header-list='' @ header_list,
              ''q-url-param-list='' @ param_list, ''q-signature='' @ signature])"
    unfolding sign_def id key
    by (cases expire_arg) (auto simp add: Let_def default_expire_def)
  with id' key' show ?thesis
    by (simp add: Let_def)
qed

text \<open>The theorem at a PUT with three headers, one of them not signed, and no parameter.\<close>

theorem sign_authorization_fields_witness:
  "sign example_crypto example_config 1700000000 ''PUT'' ''/a b'' (Some [])
     (Some [(''Host'', ''h''), (''x-trace'', ''t''), (''Content-Length'', ''3'')]) None =
   Inr ''q-sign-algorithm=sha1&q-ak=AKID&q-sign-time=1699999940;1700010000&q-key-time=1699999940;1700010000&q-header-list=content-length;host&q-url-param-list=&q-signature=hmac<hmac<secret|1699999940;1700010000>|sha1\<newline>1699999940;1700010000\<newline>sha1<put\<newline>/a b\<newline>\<newline>content-length=3&host=h\<newline>>\<newline>>'' \<and>
   (\<exists>secret_id signature.
      access_key_id example_config = Some secret_id \<and>
      ''q-sign-algorithm=sha1&q-ak=AKID&q-sign-time=1699999940;1700010000&q-key-time=1699999940;1700010000&q-header-list=content-length;host&q-url-param-list=&q-signature=hmac<hmac<secret|1699999940;1700010000>|sha1\<newline>1699999940;1700010000\<newline>sha1<put\<newline>/a b\<newline>\<newline>content-length=3&host=h\<newline>>\<newline>>'' =
      join ''&''
        [''q-sign-algorithm=sha1'', ''q-ak='' @ secret_id,
         ''q-sign-time=1699999940;1700010000'', ''q-key-time=1699999940;1700010000'',
         ''q-header-list=content-length;host'', ''q-url-param-list='',
         ''q-signature='' @ signature])"
proof -
  have h: "sign example_crypto example_config 1700000000 ''PUT'' ''/a b'' (Some [])
     (Some [(''Host'', ''h''), (''x-trace'', ''t''), (''Content-Length'', ''3'')]) None =
   Inr ''q-sign-algorithm=sha1&q-ak=AKID&q-sign-time=1699999940;1700010000&q-key-time=1699999940;1700010000&q-header-list=content-length;host&q-url-param-list=&q-signature=hmac<hmac<secret|1699999940;1700010000>|sha1\<newline>1699999940;1700010000\<newline>sha1<put\<newline>/a b\<newline>\<newline>content-length=3&host=h\<newline>>\<newline>>''"
    by (simp add: sign_def eval_simps Let_def)
  from sign_authorization_fields [OF h] h show ?thesis
    by (simp add: eval_simps Let_def)
qed

section \<open>Facts about the checks that precede a request\<close>

lemma missing_truthy: "missing x \<longleftrightarrow> truthy x = None"
  by (auto simp: missing_def truthy_def split: option.splits)

lemma sign_missing_key:
  "missing (access_key_id cfg) \<or> missing (access_key_secret cfg) \<Longrightarrow>
   sign cr cfg now method path ps hs ex = Inl (StorageBackendError MissingAccessKey)"
  by (auto simp: sign_def missing_truthy split: option.splits)

lemma get_bucket_Inl:
  "get_bucket cfg bn = Inl e \<Longrightarrow> e = StorageBackendError BucketNotSpecified"
  by (auto simp: get_bucket_def split: option.splits)

lemma get_host_Inl:
  "get_host cfg b = Inl e \<Longrightarrow> e = StorageBackendError RegionOrEndpointRequired"
  by (auto simp: get_host_def Let_def split: option.splits if_splits)

lemma get_bucket_unresolved:
  "missing bn \<Longrightarrow> missing (cfg_bucket_name cfg) \<Longrightarrow>
   get_bucket cfg bn = Inl (StorageBackendError BucketNotSpecified)"
  by (auto simp: get_bucket_def py_or_def truthy_def missing_def split: option.splits if_splits)

lemma py_or_missing: "missing a \<Longrightarrow> missing b \<Longrightarrow> missing (py_or a b)"
  by (auto simp: py_or_def truthy_def missing_def split: option.splits if_splits)

lemma get_file_size_unsigned:
  assumes "missing (access_key_id cfg) \<or> missing (access_key_secret cfg)"
  shows "\<exists>c. get_file_size env cfg h bucket object_name = (Inl (StorageBackendError c), h)"
proof (cases "get_host cfg bucket")
  case (Inl e)
  then show ?thesis by (auto simp: get_file_size_def dest: get_host_Inl)
next
  case (Inr host)
  then show ?thesis
    by (simp add: get_file_size_def Let_def sign_missing_key [OF assms])
qed

lemma delete_file_unconfigured:
  assumes "missing (access_key_id cfg) \<or> missing (access_key_secret cfg) \<or>
           missing bucket_name \<and> missing (cfg_bucket_name cfg)"
  shows "\<exists>c. delete_file env cfg h object_name bucket_name = (Inl (StorageBackendError c), h)"
proof (cases "get_bucket cfg bucket_name")
  case (Inl e)
  then show ?thesis by (auto simp: delete_file_def dest: get_bucket_Inl)
next
  case bucket: (Inr bucket)
  with assms have creds: "missing (access_key_id cfg) \<or> missing (access_key_secret cfg)"
    by (auto simp: get_bucket_unresolved)
  show ?thesis
  proof (cases "get_host cfg bucket")
    case (Inl e)
    with bucket show ?thesis by (auto simp: delete_file_def dest: get_host_Inl)
  next
    case (Inr host)
    with bucket show ?thesis
      by (simp add: delete_file_def Let_def sign_missing_key [OF creds])
  qed
qed

lemma file_exists_unconfigured:
  assumes "missing (access_key_id cfg) \<or> missing (access_key_secret cfg) \<or>
           missing bucket_name \<and> missing (cfg_bucket_name cfg)"
  shows "\<exists>c. file_exists env cfg h object_name bucket_name = (Inl (StorageBackendError c), h)"
proof (cases "get_bucket cfg bucket_name")
  case (Inl e)
  then show ?thesis by (auto simp: file_exists_def dest: get_bucket_Inl)
next
  case bucket: (Inr bucket)
  with assms have creds: "missing (access_key_id cfg) \<or> missing (access_key_secret cfg)"
    by (auto simp: get_bucket_unresolved)
  show ?thesis
  proof (cases "get_host cfg bucket")
    case (Inl e)
    with bucket show ?thesis by (auto simp: file_exists_def dest: get_host_Inl)
  next
    case (Inr host)
    with bucket show ?thesis
      by (simp add: file_exists_def Let_def sign_missing_key [OF creds])
  qed
qed

lemma download_file_unconfigured:
  assumes "missing (access_key_id cfg) \<or> missing (access_key_secret cfg) \<or>
           missing bucket_name \<and> missing (cfg_bucket_name cfg)"
  shows "\<exists>c. download_file env cfg h object_name bucket_name = (Inl (StorageBackendError c), h)"
proof (cases "get_bucket cfg bucket_name")
  case (Inl e)
  then show ?thesis by (auto simp: download_file_def dest: get_bucket_Inl)
next
  case bucket: (Inr bucket)
  with assms have creds: "missing (access_key_id cfg) \<or> missing (access_key_secret cfg)"
    by (auto simp: get_bucket_unresolved)
  show ?thesis
  proof (cases "get_host cfg bucket")
    case (Inl e)
    with bucket show ?thesis by (auto simp: download_file_def dest: get_host_Inl)
  next
    case (Inr host)
    with bucket show ?thesis
      by (simp add: download_file_def Let_def sign_missing_key [OF creds])
  qed
qed

lemma upload_file_unconfigured:
  assumes "missing (access_key_id cfg) \<or> missing (access_key_secret cfg) \<or>
           missing bucket_name \<and> missing (file_bucket_name file) \<and>
           missing (cfg_bucket_name cfg)"
  shows "\<exists>c. upload_file env cfg h file bucket_name = (Inl (StorageBackendError c), h)"
proof (cases "get_bucket cfg (py_or bucket_name (file_bucket_name file))")
  case (Inl e)
  then show ?thesis by (auto simp: upload_file_def dest: get_bucket_Inl)
next
  case bucket: (Inr bucket)
  with assms have creds: "missing (access_key_id cfg) \<or> missing (access_key_secret cfg)"
    by (auto simp: get_bucket_unresolved py_or_missing)
  show ?thesis
  proof (cases "get_host cfg bucket")
    case (Inl e)
    with bucket show ?thesis by (auto simp: upload_file_def Let_def dest: get_host_Inl)
  next
    case (Inr host)
    with bucket show ?thesis
      by (simp add: upload_file_def Let_def sign_missing_key [OF creds])
  qed
qed

lemma append_file_unconfigured:
  assumes "missing (access_key_id cfg) \<or> missing (access_key_secret cfg) \<or>
           missing bucket_name \<and> missing (cfg_bucket_name cfg)"
  shows "\<exists>c. append_file env cfg h object_name data bucket_name position =
              (Inl (StorageBackendError c), h)"
proof (cases "get_bucket cfg bucket_name")
  case (Inl e)
  then show ?thesis by (auto simp: append_file_def dest: get_bucket_Inl)
next
  case bucket: (Inr bucket)
  with assms have creds: "missing (access_key_id cfg) \<or> missing (access_key_secret cfg)"
    by (auto simp: get_bucket_unresolved)
  show ?thesis
  proof (cases position)
    case None
    from get_file_size_unsigned [OF creds, of env h bucket object_name]
    obtain c where "get_file_size env cfg h bucket object_name = (Inl (StorageBackendError c), h)"
      by blast
    with bucket None show ?thesis by (simp add: append_file_def)
  next
    case (Some p)
    show ?thesis
    proof (cases "get_host cfg bucket")
      case (Inl e)
      with bucket Some show ?thesis by (auto simp: append_file_def dest: get_host_Inl)
    next
      case (Inr host)
      with bucket Some show ?thesis
        by (simp add: append_file_def Let_def sign_missing_key [OF creds])
    qed
  qed
qed

lemma get_file_url_unconfigured:
  assumes "(missing (access_key_id cfg) \<or> missing (access_key_secret cfg)) \<and>
             expires_in \<noteq> None \<and> expires_in \<noteq> Some 0 \<or>
           missing bucket_name \<and> missing (cfg_bucket_name cfg)"
  shows "\<exists>c. get_file_url env cfg h object_name bucket_name expires_in =
              (Inl (StorageBackendError c), h)"
proof (cases "get_bucket cfg bucket_name")
  case (Inl e)
  then show ?thesis by (auto simp: get_file_url_def dest: get_bucket_Inl)
next
  case bucket: (Inr bucket)
  with assms have creds: "missing (access_key_id cfg) \<or> missing (access_key_secret cfg)"
    and ex: "expires_in \<noteq> None" "expires_in \<noteq> Some 0"
    by (auto simp: get_bucket_unresolved)
  from ex obtain e where e: "expires_in = Some e" "e \<noteq> 0" by (cases expires_in) auto
  show ?thesis
  proof (cases "get_host cfg bucket")
    case (Inl e')
    with bucket e show ?thesis
      by (auto simp: get_file_url_def get_presigned_url_def dest: get_host_Inl)
  next
    case (Inr host)
    with bucket e show ?thesis
      by (simp add: get_file_url_def get_presigned_url_def Let_def sign_missing_key [OF creds])
  qed
qed

section \<open>Missing configuration\<close>

text \<open>
  C5 as stated: with the access-key id or secret empty or absent, or no bucket resolved,
  every operation fails with a configuration error, a kind distinct from the backend
  error, before any request. The class raises \<^verbatim>\<open>StorageBackendError\<close> at both checks,
  the exception it raises for transport failures, and \<^verbatim>\<open>get_file_url\<close> without an
  expiry signs nothing: without credentials it returns the permanent URL.
\<close>

theorem configuration_error_kind_counterexample:
  "fst (download_file (example_env (RequestError ''unreachable'') (RequestError ''unreachable''))
          (example_config\<lparr>access_key_id := None\<rparr>) [] ''k'' None) =
     Inl (StorageBackendError MissingAccessKey) \<and>
   fst (download_file (example_env (RequestError ''unreachable'') (RequestError ''unreachable''))
          (example_config\<lparr>cfg_bucket_name := None\<rparr>) [] ''k'' None) =
     Inl (StorageBackendError BucketNotSpecified) \<and>
   fst (download_file (example_env (RequestError ''unreachable'') (RequestError ''unreachable''))
          example_config [] ''k'' None) =
     Inl (StorageBackendError (RequestFailed ''unreachable'')) \<and>
   is_backend_error (StorageBackendError MissingAccessKey) \<and>
   is_backend_error (StorageBackendError BucketNotSpecified) \<and>
   is_backend_error (StorageBackendError (RequestFailed ''unreachable'')) \<and>
   get_file_url (example_env (RequestError ''unreachable'') (RequestError ''unreachable''))
     (example_config\<lparr>access_key_id := None\<rparr>) [] ''k'' None None =
     (Inr ''https://b1.cos.ap-guangzhou.myqcloud.com/k'', [])"
  by (simp add: download_file_def get_file_url_def sign_def is_backend_error_def Let_def
        eval_simps)

text \<open>
  C5, amended. With the access-key id or secret empty or absent, every operation that signs
  a request (upload, download, delete, exists, append, and \<^verbatim>\<open>get_file_url\<close> with an
  expiry other than 0) fails, and with no bucket resolved (no explicit argument, no
  per-file bucket, no configured default) every operation fails, with a
  \<^verbatim>\<open>StorageBackendError\<close> and with the history of requests unchanged: nothing is sent.
\<close>

theorem missing_configuration_fails_before_any_request:
  "(missing (access_key_id cfg) \<or> missing (access_key_secret cfg) \<or>
    missing bucket_name \<and> missing (file_bucket_name file) \<and> missing (cfg_bucket_name cfg)
    \<longrightarrow> (\<exists>c. upload_file env cfg h file bucket_name = (Inl (StorageBackendError c), h))) \<and>
   (missing (access_key_id cfg) \<or> missing (access_key_secret cfg) \<or>
    missing bucket_name \<and> missing (cfg_bucket_name cfg)
    \<longrightarrow> (\<exists>c. download_file env cfg h object_name bucket_name =
               (Inl (StorageBackendError c), h)) \<and>
        (\<exists>c. delete_file env cfg h object_name bucket_name =
               (Inl (StorageBackendError c), h)) \<and>
        (\<exists>c. file_exists env cfg h object_name bucket_name =
               (Inl (StorageBackendError c), h)) \<and>
        (\<exists>c. append_file env cfg h object_name data bucket_name position =
               (Inl (StorageBackendError c), h))) \<and>
   ((missing (access_key_id cfg) \<or> missing (access_key_secret cfg)) \<and>
      expires_in \<noteq> None \<and> expires_in \<noteq> Some 0 \<or>
    missing bucket_name \<and> missing (cfg_bucket_name cfg)
    \<longrightarrow> (\<exists>c. get_file_url env cfg h object_name bucket_name expires_in =
               (Inl (StorageBackendError c), h)))"
  by (intro conjI impI)
     (erule upload_file_unconfigured download_file_unconfigured delete_file_unconfigured
        file_exists_unconfigured append_file_unconfigured get_file_url_unconfigured)+

text \<open>The theorem at a configuration whose secret is the empty string.\<close>

theorem missing_configuration_fails_before_any_request_witness:
  "missing (access_key_secret (example_config\<lparr>access_key_secret := Some []\<rparr>)) \<and>
   (\<exists>c. upload_file (example_env (RequestError []) (RequestError []))
          (example_config\<lparr>access_key_secret := Some []\<rparr>) [] example_file None =
        (Inl (StorageBackendError c), [])) \<and>
   (\<exists>c. download_file (example_env (RequestError []) (RequestError []))
          (example_config\<lparr>access_key_secret := Some []\<rparr>) [] ''k'' None =
        (Inl (StorageBackendError c), [])) \<and>
   (\<exists>c. append_file (example_env (RequestError []) (RequestError []))
          (example_config\<lparr>access_key_secret := Some []\<rparr>) [] ''k'' ''hello'' None None =
        (Inl (StorageBackendError c), [])) \<and>
   (\<exists>c. get_file_url (example_env (RequestError []) (RequestError []))
          (example_config\<lparr>access_key_secret := Some []\<rparr>) [] ''k'' None (Some 60) =
        (Inl (StorageBackendError c), []))"
proof -
  have m: "missing (access_key_secret (example_config\<lparr>access_key_secret := Some []\<rparr>))"
    by (simp add: missing_def)
  from m missing_configuration_fails_before_any_request
    [of "example_config\<lparr>access_key_secret := Some []\<rparr>" None example_file
        "example_env (RequestError []) (RequestError [])" "[]" "''k''" "''hello''" None "Some 60"]
  show ?thesis by simp
qed

section \<open>Download\<close>

text \<open>
  C7. Whenever \<^verbatim>\<open>download_file\<close> sends its request, it is one GET, and the result
  follows its outcome: status 404 raises \<^verbatim>\<open>StorageNotFoundError\<close>; any other status on
  which \<^verbatim>\<open>raise_for_status\<close> raises, and a transport failure, raise
  \<^verbatim>\<open>StorageBackendError\<close>; otherwise the body bytes are returned. The two error kinds
  are distinct.
\<close>

theorem download_file_results:
  assumes run: "download_file env cfg h object_name bucket_name = (res, h')"
    and sent: "h' \<noteq> h"
  shows "\<exists>req. h' = h @ [req] \<and> req_method req = ''GET'' \<and>
           (case send env h req of
              RequestError m \<Rightarrow> res = Inl (StorageBackendError (RequestFailed m))
            | Response r \<Rightarrow>
                (status_code r = 404 \<longrightarrow> res = Inl (StorageNotFoundError object_name)) \<and>
                (status_code r \<noteq> 404 \<and> raises_for_status env (status_code r) \<longrightarrow>
                 res = Inl (StorageBackendError
                              (DownloadFailed (status_code r) (text_of r)))) \<and>
                (status_code r \<noteq> 404 \<and> \<not> raises_for_status env (status_code r) \<longrightarrow>
                 res = Inr (content r))) \<and>
           is_not_found_error (StorageNotFoundError object_name) \<and>
           (\<forall>c. \<not> is_not_found_error (StorageBackendError c) \<and>
                \<not> is_backend_error (StorageNotFoundError object_name))"
  using run sent
  by (auto simp: download_file_def Let_def http_send_def is_not_found_error_def
        is_backend_error_def split: sum.splits outcome.splits if_splits)

text \<open>The theorem at a 404 response and at a 200 response with a body.\<close>

theorem download_file_results_witness:
  "snd (download_file (example_env (RequestError []) (Response (example_response 404 no_headers [])))
          example_config [] ''k'' None) \<noteq> [] \<and>
   fst (download_file (example_env (RequestError []) (Response (example_response 404 no_headers [])))
          example_config [] ''k'' None) = Inl (StorageNotFoundError ''k'') \<and>
   snd (download_file (example_env (RequestError []) (Response (example_response 200 no_headers ''data'')))
          example_config [] ''k'' None) \<noteq> [] \<and>
   fst (download_file (example_env (RequestError []) (Response (example_response 200 no_headers ''data'')))
          example_config [] ''k'' None) = Inr ''data''"
proof -
  let ?e1 = "example_env (RequestError []) (Response (example_response 404 no_headers []))"
  let ?e2 = "example_env (RequestError []) (Response (example_response 200 no_headers ''data''))"
  have s1: "snd (download_file ?e1 example_config [] ''k'' None) \<noteq> []"
    by (simp add: download_file_def sign_def Let_def eval_simps)
  have s2: "snd (download_file ?e2 example_config [] ''k'' None) \<noteq> []"
    by (simp add: download_file_def sign_def Let_def eval_simps)
  have r1: "fst (download_file ?e1 example_config [] ''k'' None) = Inl (StorageNotFoundError ''k'')"
    using download_file_results [OF prod.collapse [symmetric] s1]
    by (auto simp: example_env_def example_response_def)
  have r2: "fst (download_file ?e2 example_config [] ''k'' None) = Inr ''data''"
    using download_file_results [OF prod.collapse [symmetric] s2]
    by (auto simp: example_env_def example_response_def httpx_raises_def)
  from s1 s2 r1 r2 show ?thesis by simp
qed

section \<open>Delete\<close>

text \<open>
  C8 as stated: any status other than 200, 204 and 404 raises a backend error. The code
  calls \<^verbatim>\<open>raise_for_status\<close> on those, which does not raise on the other 2xx
  statuses: a 202 response makes \<^verbatim>\<open>delete_file\<close> return without error.
\<close>

theorem delete_file_status_202_counterexample:
  "fst (delete_file (example_env (RequestError []) (Response (example_response 202 no_headers [])))
          example_config [] ''k'' None) = Inr () \<and>
   202 \<notin> {200, 204, 404 :: int}"
  by (simp add: delete_file_def sign_def Let_def eval_simps)

text \<open>
  C8, amended. Whenever \<^verbatim>\<open>delete_file\<close> sends its request, it is one DELETE; the
  statuses 200, 204 and 404 return without error; any other status raises a backend error
  when \<^verbatim>\<open>raise_for_status\<close> raises on it and returns without error when it does not;
  a transport failure raises a backend error.
\<close>

theorem delete_file_results:
  assumes run: "delete_file env cfg h object_name bucket_name = (res, h')"
    and sent: "h' \<noteq> h"
  shows "\<exists>req. h' = h @ [req] \<and> req_method req = ''DELETE'' \<and>
           (case send env h req of
              RequestError m \<Rightarrow> res = Inl (StorageBackendError (RequestFailed m))
            | Response r \<Rightarrow>
                (status_code r \<in> {200, 204, 404} \<longrightarrow> res = Inr ()) \<and>
                (status_code r \<notin> {200, 204, 404} \<and> raises_for_status env (status_code r) \<longrightarrow>
                 res = Inl (StorageBackendError (DeleteFailed (status_code r) (text_of r)))) \<and>
                (status_code r \<notin> {200, 204, 404} \<and> \<not> raises_for_status env (status_code r) \<longrightarrow>
                 res = Inr ()))"
  using run sent
  by (auto simp: delete_file_def Let_def http_send_def
        split: sum.splits outcome.splits if_splits)

text \<open>The theorem at a 404 response and at a 500 response.\<close>

theorem delete_file_results_witness:
  "snd (delete_file (example_env (RequestError []) (Response (example_response 404 no_headers [])))
          example_config [] ''k'' None) \<noteq> [] \<and>
   fst (delete_file (example_env (RequestError []) (Response (example_response 404 no_headers [])))
          example_config [] ''k'' None) = Inr () \<and>
   snd (delete_file (example_env (RequestError []) (Response (example_response 500 no_headers ''oops'')))
          example_config [] ''k'' None) \<noteq> [] \<and>
   fst (delete_file (example_env (RequestError []) (Response (example_response 500 no_headers ''oops'')))
          example_config [] ''k'' None) = Inl (StorageBackendError (DeleteFailed 500 ''oops''))"
proof -
  let ?e1 = "example_env (RequestError []) (Response (example_response 404 no_headers []))"
  let ?e2 = "example_env (RequestError []) (Response (example_response 500 no_headers ''oops''))"
  have s1: "snd (delete_file ?e1 example_config [] ''k'' None) \<noteq> []"
    by (simp add: delete_file_def sign_def Let_def eval_simps)
  have s2: "snd (delete_file ?e2 example_config [] ''k'' None) \<noteq> []"
    by (simp add: delete_file_def sign_def Let_def eval_simps)
  have r1: "fst (delete_file ?e1 example_config [] ''k'' None) = Inr ()"
    using delete_file_results [OF prod.collapse [symmetric] s1]
    by (auto simp: example_env_def example_response_def)
  have r2: "fst (delete_file ?e2 example_config [] ''k'' None) =
            Inl (StorageBackendError (DeleteFailed 500 ''oops''))"
    using delete_file_results [OF prod.collapse [symmetric] s2]
    by (auto simp: example_env_def example_response_def httpx_raises_def)
  from s1 s2 r1 r2 show ?thesis by simp
qed

section \<open>Existence check\<close>

text \<open>
  C9. Whenever \<^verbatim>\<open>file_exists\<close> sends its request, it is one HEAD, and the call
  returns without raising: \<^verbatim>\<open>True\<close> exactly when a response arrives with status 200,
  \<^verbatim>\<open>False\<close> for every other status and for a transport failure.
\<close>

theorem file_exists_iff_status_200:
  assumes run: "file_exists env cfg h object_name bucket_name = (res, h')"
    and sent: "h' \<noteq> h"
  shows "\<exists>req. h' = h @ [req] \<and> req_method req = ''HEAD'' \<and>
           res = Inr (case send env h req of
                        Response r \<Rightarrow> status_code r = 200
                      | RequestError m \<Rightarrow> False)"
  using run sent
  by (auto simp: file_exists_def Let_def http_send_def
           split: sum.splits outcome.splits)

text \<open>The theorem at a 200 response and at an unreachable host.\<close>

theorem file_exists_iff_status_200_witness:
  "snd (file_exists (example_env (Response (example_response 200 no_headers [])) (RequestError []))
          example_config [] ''k'' None) \<noteq> [] \<and>
   fst (file_exists (example_env (Response (example_response 200 no_headers [])) (RequestError []))
          example_config [] ''k'' None) = Inr True \<and>
   snd (file_exists (example_env (RequestError ''unreachable'') (RequestError []))
          example_config [] ''k'' None) \<noteq> [] \<and>
   fst (file_exists (example_env (RequestError ''unreachable'') (RequestError []))
          example_config [] ''k'' None) = Inr False"
proof -
  let ?e1 = "example_env (Response (example_response 200 no_headers [])) (RequestError [])"
  let ?e2 = "example_env (RequestError ''unreachable'') (RequestError [])"
  have s1: "snd (file_exists ?e1 example_config [] ''k'' None) \<noteq> []"
    by (simp add: file_exists_def sign_def Let_def eval_simps)
  have s2: "snd (file_exists ?e2 example_config [] ''k'' None) \<noteq> []"
    by (simp add: file_exists_def sign_def Let_def eval_simps)
  have r1: "fst (file_exists ?e1 example_config [] ''k'' None) = Inr True"
    using file_exists_iff_status_200 [OF prod.collapse [symmetric] s1]
    by (auto simp: example_env_def example_response_def)
  have r2: "fst (file_exists ?e2 example_config [] ''k'' None) = Inr False"
    using file_exists_iff_status_200 [OF prod.collapse [symmetric] s2]
    by (auto simp: example_env_def)
  from s1 s2 r1 r2 show ?thesis by simp
qed

section \<open>Facts about request headers\<close>

lemma update_keeps_host:
  assumes "k \<noteq> ''authorization''" and "k \<noteq> ''host''"
    and "''authorization'' \<notin> fst ` set hs" and "map_of hs ''host'' = Some host"
  shows "''authorization'' \<notin> fst ` set (AList.update k v hs) \<and>
         map_of (AList.update k v hs) ''host'' = Some host"
  using assms by (simp add: dom_update update_conv')

lemma add_session_token_keeps_host:
  assumes "''authorization'' \<notin> fst ` set hs" and "map_of hs ''host'' = Some host"
  shows "''authorization'' \<notin> fst ` set (add_session_token cfg hs) \<and>
         map_of (add_session_token cfg hs) ''host'' = Some host"
proof (cases "truthy (session_token cfg)")
  case None
  with assms show ?thesis by (simp add: add_session_token_def)
next
  case (Some t)
  have "''authorization'' \<notin> fst ` set (AList.update ''x-cos-security-token'' t hs) \<and>
        map_of (AList.update ''x-cos-security-token'' t hs) ''host'' = Some host"
    by (rule update_keeps_host) (simp_all add: assms)
  with Some show ?thesis by (simp add: add_session_token_def)
qed

lemma metadata_keeps_host:
  assumes "''authorization'' \<notin> fst ` set hs" and "map_of hs ''host'' = Some host"
  shows "''authorization'' \<notin>
           fst ` set (fold (\<lambda>(k, v) hs. AList.update (''x-cos-meta-'' @ k) v hs) md hs) \<and>
         map_of (fold (\<lambda>(k, v) hs. AList.update (''x-cos-meta-'' @ k) v hs) md hs) ''host'' =
           Some host"
  using assms
proof (induction md arbitrary: hs)
  case Nil
  then show ?case by simp
next
  case (Cons kv md)
  obtain k v where kv: "kv = (k, v)" by (cases kv)
  have "''authorization'' \<notin> fst ` set (AList.update (''x-cos-meta-'' @ k) v hs) \<and>
        map_of (AList.update (''x-cos-meta-'' @ k) v hs) ''host'' = Some host"
    by (rule update_keeps_host) (simp_all add: Cons.prems)
  then show ?case using Cons.IH by (simp add: kv)
qed

lemma signed_requestI:
  assumes "get_host cfg bucket = Inr host"
    and "sign (crypto_of env) cfg (clock env h) method path (Some params) (Some hs) None =
         Inr auth"
    and "''authorization'' \<notin> fst ` set hs" and "map_of hs ''host'' = Some host"
    and "u = ''https://'' @ host @ quote path ''/-_.~'' @ suffix"
  shows "signed_request env cfg h bucket method path params suffix
           \<lparr>req_method = method, req_url = u,
            req_headers = AList.update ''authorization'' auth hs, req_content = c\<rparr>"
  unfolding signed_request_def using assms
  by (intro exI [of _ host] exI [of _ hs] exI [of _ auth]) (simp add: update_fresh)

section \<open>Append\<close>









lemma append_file_sent:
  assumes run: "append_file env cfg h object_name data bucket_name (Some position) = (res, h')"
    and sent: "h' \<noteq> h"
    and path: "path = (if startswith object_name ''/'' then object_name else ''/'' @ object_name)"
  shows "\<exists>bucket req. get_bucket cfg bucket_name = Inr bucket \<and>
           h' = h @ [req] \<and> req_content req = data \<and>
           signed_request env cfg h bucket ''POST'' path
             [(''append'', []), (''position'', str_int position)]
             (''?append=&position='' @ str_int position) req \<and>
           (case send env h req of
              RequestError m \<Rightarrow> res = Inl (StorageBackendError (RequestFailed m))
            | Response r \<Rightarrow>
                (raises_for_status env (status_code r) \<longrightarrow>
                 res = Inl (StorageBackendError (AppendFailed (status_code r) (text_of r)))) \<and>
                (\<not> raises_for_status env (status_code r) \<and>
                 missing (headers_get r ''x-cos-next-append-position'') \<longrightarrow>
                 res = Inr (position + int (length data))) \<and>
                (\<forall>v n. \<not> raises_for_status env (status_code r) \<and>
                       headers_get r ''x-cos-next-append-position'' = Some v \<and> v \<noteq> [] \<and>
                       py_int v = Some n \<longrightarrow> res = Inr n))"
proof -
  from run sent obtain bucket host auth where
    b: "get_bucket cfg bucket_name = Inr bucket" and
    ho: "get_host cfg bucket = Inr host" and
    sg: "sign (crypto_of env) cfg (clock env h) ''POST'' path
           (Some [(''append'', []), (''position'', str_int position)])
           (Some (add_session_token cfg
              [(''host'', host), (''content-length'', str_int (int (length data)))])) None =
         Inr auth"
    unfolding path
    by (auto simp: append_file_def Let_def split: sum.splits if_splits)
  let ?hs = "add_session_token cfg
           [(''host'', host), (''content-length'', str_int (int (length data)))]"
  let ?req = "\<lparr>req_method = ''POST'',
      req_url = ''https://'' @ host @ quote path ''/-_.~'' @ ''?append=&position='' @
                str_int position,
      req_headers = AList.update ''authorization'' auth ?hs,
      req_content = data\<rparr>"
  have keeps: "''authorization'' \<notin> fst ` set ?hs \<and> map_of ?hs ''host'' = Some host"
    by (rule add_session_token_keeps_host) simp_all
  have sr: "signed_request env cfg h bucket ''POST'' path
             [(''append'', []), (''position'', str_int position)]
             (''?append=&position='' @ str_int position) ?req"
    using ho sg keeps by (intro signed_requestI [where host = host]) simp_all
  have h': "h' = h @ [?req]"
    using run b ho sg unfolding path
    by (auto simp: append_file_def Let_def http_send_def split: outcome.splits if_splits option.splits)
  have res: "(case send env h ?req of
              RequestError m \<Rightarrow> res = Inl (StorageBackendError (RequestFailed m))
            | Response r \<Rightarrow>
                (raises_for_status env (status_code r) \<longrightarrow>
                 res = Inl (StorageBackendError (AppendFailed (status_code r) (text_of r)))) \<and>
                (\<not> raises_for_status env (status_code r) \<and>
                 missing (headers_get r ''x-cos-next-append-position'') \<longrightarrow>
                 res = Inr (position + int (length data))) \<and>
                (\<forall>v n. \<not> raises_for_status env (status_code r) \<and>
                       headers_get r ''x-cos-next-append-position'' = Some v \<and> v \<noteq> [] \<and>
                       py_int v = Some n \<longrightarrow> res = Inr n))"
    using run b ho sg unfolding path
    by (auto simp: append_file_def Let_def http_send_def missing_truthy truthy_def
          split: outcome.splits if_splits option.splits)
  from b sr h' res show ?thesis
    by (intro exI [of _ bucket] exI [of _ ?req]) simp
qed



section \<open>The object path\<close>

lemma object_path_cases:
  assumes "path = (if startswith object_name ''/'' then object_name else ''/'' @ object_name)"
  shows "(startswith object_name ''/'' \<longrightarrow> path = object_name) \<and>
         (\<not> startswith object_name ''/'' \<longrightarrow> path = ''/'' @ object_name) \<and>
         startswith path ''/'' \<and>
         (startswith path ''//'' \<longleftrightarrow> startswith object_name ''//'')"
  using assms by (cases object_name; cases "tl object_name") (auto simp: startswith_def)

lemma download_file_signed:
  assumes run: "download_file env cfg h object_name bucket_name = (res, h')"
    and sent: "h' \<noteq> h"
    and path: "path = (if startswith object_name ''/'' then object_name else ''/'' @ object_name)"
  shows "\<exists>bucket req. get_bucket cfg bucket_name = Inr bucket \<and> h' = h @ [req] \<and>
           signed_request env cfg h bucket ''GET'' path [] [] req"
proof -
  from run sent obtain bucket host auth where
    b: "get_bucket cfg bucket_name = Inr bucket" and
    ho: "get_host cfg bucket = Inr host" and
    sg: "sign (crypto_of env) cfg (clock env h) ''GET'' path (Some [])
           (Some (add_session_token cfg [(''host'', host)])) None = Inr auth" and
    h': "h' = h @ [\<lparr>req_method = ''GET'',
                    req_url = ''https://'' @ host @ quote path ''/-_.~'',
                    req_headers = AList.update ''authorization'' auth
                                    (add_session_token cfg [(''host'', host)]),
                    req_content = []\<rparr>]"
    unfolding path
    by (auto simp: download_file_def Let_def http_send_def split: sum.splits outcome.splits if_splits)
  have keeps: "''authorization'' \<notin> fst ` set (add_session_token cfg [(''host'', host)]) \<and>
               map_of (add_session_token cfg [(''host'', host)]) ''host'' = Some host"
    by (rule add_session_token_keeps_host) simp_all
  have "signed_request env cfg h bucket ''GET'' path [] []
          \<lparr>req_method = ''GET'',
           req_url = ''https://'' @ host @ quote path ''/-_.~'',
           req_headers = AList.update ''authorization'' auth
                           (add_session_token cfg [(''host'', host)]),
           req_content = []\<rparr>"
    using ho sg keeps by (intro signed_requestI [where host = host]) simp_all
  with b h' show ?thesis by blast
qed

lemma delete_file_signed:
  assumes run: "delete_file env cfg h object_name bucket_name = (res, h')"
    and sent: "h' \<noteq> h"
    and path: "path = (if startswith object_name ''/'' then object_name else ''/'' @ object_name)"
  shows "\<exists>bucket req. get_bucket cfg bucket_name = Inr bucket \<and> h' = h @ [req] \<and>
           signed_request env cfg h bucket ''DELETE'' path [] [] req"
proof -
  from run sent obtain bucket host auth where
    b: "get_bucket cfg bucket_name = Inr bucket" and
    ho: "get_host cfg bucket = Inr host" and
    sg: "sign (crypto_of env) cfg (clock env h) ''DELETE'' path (Some [])
           (Some (add_session_token cfg [(''host'', host)])) None = Inr auth" and
    h': "h' = h @ [\<lparr>req_method = ''DELETE'',
                    req_url = ''https://'' @ host @ quote path ''/-_.~'',
                    req_headers = AList.update ''authorization'' auth
                                    (add_session_token cfg [(''host'', host)]),
                    req_content = []\<rparr>]"
    unfolding path
    by (auto simp: delete_file_def Let_def http_send_def split: sum.splits outcome.splits if_splits)
  have keeps: "''authorization'' \<notin> fst ` set (add_session_token cfg [(''host'', host)]) \<and>
               map_of (add_session_token cfg [(''host'', host)]) ''host'' = Some host"
    by (rule add_session_token_keeps_host) simp_all
  have "signed_request env cfg h bucket ''DELETE'' path [] []
          \<lparr>req_method = ''DELETE'',
           req_url = ''https://'' @ host @ quote path ''/-_.~'',
           req_headers = AList.update ''authorization'' auth
                           (add_session_token cfg [(''host'', host)]),
           req_content = []\<rparr>"
    using ho sg keeps by (intro signed_requestI [where host = host]) simp_all
  with b h' show ?thesis by blast
qed

lemma file_exists_signed:
  assumes run: "file_exists env cfg h object_name bucket_name = (res, h')"
    and sent: "h' \<noteq> h"
    and path: "path = (if startswith object_name ''/'' then object_name else ''/'' @ object_name)"
  shows "\<exists>bucket req. get_bucket cfg bucket_name = Inr bucket \<and> h' = h @ [req] \<and>
           signed_request env cfg h bucket ''HEAD'' path [] [] req"
proof -
  from run sent obtain bucket host auth where
    b: "get_bucket cfg bucket_name = Inr bucket" and
    ho: "get_host cfg bucket = Inr host" and
    sg: "sign (crypto_of env) cfg (clock env h) ''HEAD'' path (Some [])
           (Some (add_session_token cfg [(''host'', host)])) None = Inr auth" and
    h': "h' = h @ [\<lparr>req_method = ''HEAD'',
                    req_url = ''https://'' @ host @ quote path ''/-_.~'',
                    req_headers = AList.update ''authorization'' auth
                                    (add_session_token cfg [(''host'', host)]),
                    req_content = []\<rparr>]"
    unfolding path
    by (auto simp: file_exists_def Let_def http_send_def split: sum.splits outcome.splits if_splits)
  have keeps: "''authorization'' \<notin> fst ` set (add_session_token cfg [(''host'', host)]) \<and>
               map_of (add_session_token cfg [(''host'', host)]) ''host'' = Some host"
    by (rule add_session_token_keeps_host) simp_all
  have "signed_request env cfg h bucket ''HEAD'' path [] []
          \<lparr>req_method = ''HEAD'',
           req_url = ''https://'' @ host @ quote path ''/-_.~'',
           req_headers = AList.update ''authorization'' auth
                           (add_session_token cfg [(''host'', host)]),
           req_content = []\<rparr>"
    using ho sg keeps by (intro signed_requestI [where host = host]) simp_all
  with b h' show ?thesis by blast
qed

lemma get_file_size_signed:
  assumes run: "get_file_size env cfg h bucket object_name = (res, h')"
    and sent: "h' \<noteq> h"
    and path: "path = (if startswith object_name ''/'' then object_name else ''/'' @ object_name)"
  shows "\<exists>req. h' = h @ [req] \<and> signed_request env cfg h bucket ''HEAD'' path [] [] req"
proof -
  from run sent obtain host auth where
    ho: "get_host cfg bucket = Inr host" and
    sg: "sign (crypto_of env) cfg (clock env h) ''HEAD'' path (Some [])
           (Some (add_session_token cfg [(''host'', host)])) None = Inr auth" and
    h': "h' = h @ [\<lparr>req_method = ''HEAD'',
                    req_url = ''https://'' @ host @ quote path ''/-_.~'',
                    req_headers = AList.update ''authorization'' auth
                                    (add_session_token cfg [(''host'', host)]),
                    req_content = []\<rparr>]"
    unfolding path
    by (auto simp: get_file_size_def Let_def http_send_def
          split: sum.splits outcome.splits if_splits option.splits)
  have keeps: "''authorization'' \<notin> fst ` set (add_session_token cfg [(''host'', host)]) \<and>
               map_of (add_session_token cfg [(''host'', host)]) ''host'' = Some host"
    by (rule add_session_token_keeps_host) simp_all
  have "signed_request env cfg h bucket ''HEAD'' path [] []
          \<lparr>req_method = ''HEAD'',
           req_url = ''https://'' @ host @ quote path ''/-_.~'',
           req_headers = AList.update ''authorization'' auth
                           (add_session_token cfg [(''host'', host)]),
           req_content = []\<rparr>"
    using ho sg keeps by (intro signed_requestI [where host = host]) simp_all
  with h' show ?thesis by blast
qed

lemma upload_headers_keep_host:
  "''authorization'' \<notin> fst ` set
     (add_session_token cfg
        (case md of
           Some m \<Rightarrow> fold (\<lambda>(k, v) hs. AList.update (''x-cos-meta-'' @ k) v hs) m
                       (case ct of
                          Some t \<Rightarrow> AList.update ''content-type'' t
                                      [(''host'', host), (''content-length'', n)]
                        | None \<Rightarrow> [(''host'', host), (''content-length'', n)])
         | None \<Rightarrow> (case ct of
                       Some t \<Rightarrow> AList.update ''content-type'' t
                                   [(''host'', host), (''content-length'', n)]
                     | None \<Rightarrow> [(''host'', host), (''content-length'', n)]))) \<and>
   map_of
     (add_session_token cfg
        (case md of
           Some m \<Rightarrow> fold (\<lambda>(k, v) hs. AList.update (''x-cos-meta-'' @ k) v hs) m
                       (case ct of
                          Some t \<Rightarrow> AList.update ''content-type'' t
                                      [(''host'', host), (''content-length'', n)]
                        | None \<Rightarrow> [(''host'', host), (''content-length'', n)])
         | None \<Rightarrow> (case ct of
                       Some t \<Rightarrow> AList.update ''content-type'' t
                                   [(''host'', host), (''content-length'', n)]
                     | None \<Rightarrow> [(''host'', host), (''content-length'', n)]))) ''host'' =
   Some host"
proof -
  let ?h1 = "case ct of
               Some t \<Rightarrow> AList.update ''content-type'' t
                           [(''host'', host), (''content-length'', n)]
             | None \<Rightarrow> [(''host'', host), (''content-length'', n)]"
  have h1: "''authorization'' \<notin> fst ` set ?h1 \<and> map_of ?h1 ''host'' = Some host"
    by (cases ct) simp_all
  let ?h2 = "case md of
               Some m \<Rightarrow> fold (\<lambda>(k, v) hs. AList.update (''x-cos-meta-'' @ k) v hs) m ?h1
             | None \<Rightarrow> ?h1"
  have h2: "''authorization'' \<notin> fst ` set ?h2 \<and> map_of ?h2 ''host'' = Some host"
  proof (cases md)
    case None
    with h1 show ?thesis by simp
  next
    case (Some m)
    from h1 have "''authorization'' \<notin>
           fst ` set (fold (\<lambda>(k, v) hs. AList.update (''x-cos-meta-'' @ k) v hs) m ?h1) \<and>
         map_of (fold (\<lambda>(k, v) hs. AList.update (''x-cos-meta-'' @ k) v hs) m ?h1) ''host'' =
           Some host"
      by (intro metadata_keeps_host) simp_all
    with Some show ?thesis by simp
  qed
  from h2 show ?thesis
    by (intro add_session_token_keeps_host) simp_all
qed

lemma upload_file_signed:
  assumes run: "upload_file env cfg h file bucket_name = (res, h')"
    and sent: "h' \<noteq> h"
    and path: "path = (if startswith (file_object_name file) ''/'' then file_object_name file
                       else ''/'' @ file_object_name file)"
  shows "\<exists>bucket req.
           get_bucket cfg (py_or bucket_name (file_bucket_name file)) = Inr bucket \<and>
           h' = h @ [req] \<and> signed_request env cfg h bucket ''PUT'' path [] [] req"
proof -
  let ?hs = "\<lambda>host. add_session_token cfg
        (case file_metadata file of
           Some m \<Rightarrow> fold (\<lambda>(k, v) hs. AList.update (''x-cos-meta-'' @ k) v hs) m
                       (case truthy (file_content_type file) of
                          Some t \<Rightarrow> AList.update ''content-type'' t
                                      [(''host'', host),
                                       (''content-length'',
                                        str_int (int (length (read_file_data file))))]
                        | None \<Rightarrow> [(''host'', host),
                                    (''content-length'',
                                     str_int (int (length (read_file_data file))))])
         | None \<Rightarrow> (case truthy (file_content_type file) of
                       Some t \<Rightarrow> AList.update ''content-type'' t
                                   [(''host'', host),
                                    (''content-length'',
                                     str_int (int (length (read_file_data file))))]
                     | None \<Rightarrow> [(''host'', host),
                                 (''content-length'',
                                  str_int (int (length (read_file_data file))))]))"
  from run sent obtain bucket host auth where
    b: "get_bucket cfg (py_or bucket_name (file_bucket_name file)) = Inr bucket" and
    ho: "get_host cfg bucket = Inr host" and
    sg: "sign (crypto_of env) cfg (clock env h) ''PUT'' path (Some []) (Some (?hs host)) None =
         Inr auth"
    and h': "h' = h @ [\<lparr>req_method = ''PUT'',
                    req_url = ''https://'' @ host @ quote path ''/-_.~'',
                    req_headers = AList.update ''authorization'' auth (?hs host),
                    req_content = read_file_data file\<rparr>]"
    unfolding path
    by (auto simp: upload_file_def Let_def http_send_def
          split: sum.splits outcome.splits if_splits option.splits)
  have keeps: "''authorization'' \<notin> fst ` set (?hs host) \<and> map_of (?hs host) ''host'' = Some host"
    by (rule upload_headers_keep_host)
  have "signed_request env cfg h bucket ''PUT'' path [] []
          \<lparr>req_method = ''PUT'',
           req_url = ''https://'' @ host @ quote path ''/-_.~'',
           req_headers = AList.update ''authorization'' auth (?hs host),
           req_content = read_file_data file\<rparr>"
    using ho sg keeps by (intro signed_requestI [where host = host]) simp_all
  with b h' show ?thesis by blast
qed

lemma get_presigned_url_signed:
  assumes run: "get_presigned_url cr cfg now bucket object_name method expires_in = Inr u"
    and path: "path = (if startswith object_name ''/'' then object_name else ''/'' @ object_name)"
  shows "\<exists>host auth. get_host cfg bucket = Inr host \<and>
           u = ''https://'' @ host @ quote path ''/-_.~'' @ ''?'' @ auth \<and>
           sign cr cfg now method path (Some []) (Some [(''host'', host)]) (Some expires_in) =
             Inr auth"
  using run unfolding path
  by (auto simp: get_presigned_url_def Let_def split: sum.splits if_splits)

text \<open>
  C10 as stated: the path never carries a doubled leading slash. A key that itself starts
  with two slashes is passed through: for the key \<^verbatim>\<open>//k\<close> the presigned URL and the
  download URL read \<^verbatim>\<open>https://{host}//k\<close>, and the signature is computed over the path
  \<^verbatim>\<open>//k\<close>.
\<close>

theorem doubled_slash_key_counterexample:
  "get_file_url (example_env (RequestError []) (RequestError [])) example_config []
     ''//k'' None (Some 60) =
   (Inr ''https://b1.cos.ap-guangzhou.myqcloud.com//k?q-sign-algorithm=sha1&q-ak=AKID&q-sign-time=1699999940;1700000060&q-key-time=1699999940;1700000060&q-header-list=host&q-url-param-list=&q-signature=hmac<hmac<secret|1699999940;1700000060>|sha1\<newline>1699999940;1700000060\<newline>sha1<get\<newline>//k\<newline>\<newline>host=b1.cos.ap-guangzhou.myqcloud.com\<newline>>\<newline>>'',
    []) \<and>
   map req_url (snd (download_file
     (example_env (RequestError []) (Response (example_response 200 no_headers [])))
     example_config [] ''//k'' None)) = [''https://b1.cos.ap-guangzhou.myqcloud.com//k'']"
  by (simp add: get_file_url_def get_presigned_url_def download_file_def sign_def Let_def
        eval_simps)

text \<open>
  C10, amended. In every operation (upload, download, delete, exists, the size probe and
  the POST of append, presign) the path used for signing and for composing the request URL
  is the key itself when the key starts with \<^verbatim>\<open>/\<close>, and \<^verbatim>\<open>/\<close> followed by the key
  otherwise; so the path starts with a doubled slash exactly when the key itself starts
  with one. The URL of each request is \<^verbatim>\<open>https://\<close>, the host resolved for the
  operation's bucket, and the percent-encoded path; the request carries that host as its
  \<^verbatim>\<open>host\<close> header and is signed over the same path.
\<close>

theorem object_path_in_every_operation:
  assumes path: "path = (if startswith object_name ''/'' then object_name else ''/'' @ object_name)"
    and fobj: "file_object_name file = object_name"
  shows
    "(startswith object_name ''/'' \<longrightarrow> path = object_name) \<and>
     (\<not> startswith object_name ''/'' \<longrightarrow> path = ''/'' @ object_name) \<and>
     (startswith path ''//'' \<longleftrightarrow> startswith object_name ''//'') \<and>
     (\<forall>res h'. upload_file env cfg h file bucket_name = (res, h') \<and> h' \<noteq> h \<longrightarrow>
        (\<exists>bucket req.
           get_bucket cfg (py_or bucket_name (file_bucket_name file)) = Inr bucket \<and>
           h' = h @ [req] \<and> signed_request env cfg h bucket ''PUT'' path [] [] req)) \<and>
     (\<forall>res h'. download_file env cfg h object_name bucket_name = (res, h') \<and> h' \<noteq> h \<longrightarrow>
        (\<exists>bucket req. get_bucket cfg bucket_name = Inr bucket \<and> h' = h @ [req] \<and>
           signed_request env cfg h bucket ''GET'' path [] [] req)) \<and>
     (\<forall>res h'. delete_file env cfg h object_name bucket_name = (res, h') \<and> h' \<noteq> h \<longrightarrow>
        (\<exists>bucket req. get_bucket cfg bucket_name = Inr bucket \<and> h' = h @ [req] \<and>
           signed_request env cfg h bucket ''DELETE'' path [] [] req)) \<and>
     (\<forall>res h'. file_exists env cfg h object_name bucket_name = (res, h') \<and> h' \<noteq> h \<longrightarrow>
        (\<exists>bucket req. get_bucket cfg bucket_name = Inr bucket \<and> h' = h @ [req] \<and>
           signed_request env cfg h bucket ''HEAD'' path [] [] req)) \<and>
     (\<forall>bucket res h'. get_file_size env cfg h bucket object_name = (res, h') \<and> h' \<noteq> h \<longrightarrow>
        (\<exists>req. h' = h @ [req] \<and> signed_request env cfg h bucket ''HEAD'' path [] [] req)) \<and>
     (\<forall>position res h'.
        append_file env cfg h object_name data bucket_name (Some position) = (res, h') \<and>
        h' \<noteq> h \<longrightarrow>
        (\<exists>bucket req. get_bucket cfg bucket_name = Inr bucket \<and> h' = h @ [req] \<and>
           signed_request env cfg h bucket ''POST'' path
             [(''append'', []), (''position'', str_int position)]
             (''?append=&position='' @ str_int position) req)) \<and>
     (\<forall>bucket u. get_presigned_url cr cfg now bucket object_name method expires_in = Inr u \<longrightarrow>
        (\<exists>host auth.
           get_host cfg bucket = Inr host \<and>
           u = ''https://'' @ host @ quote path ''/-_.~'' @ ''?'' @ auth \<and>
           sign cr cfg now method path (Some []) (Some [(''host'', host)]) (Some expires_in) =
             Inr auth))"
proof (intro conjI allI impI)
  show "startswith object_name ''/'' \<Longrightarrow> path = object_name"
    using object_path_cases [OF path] by blast
  show "\<not> startswith object_name ''/'' \<Longrightarrow> path = ''/'' @ object_name"
    using object_path_cases [OF path] by blast
  show "startswith path ''//'' = startswith object_name ''//''"
    using object_path_cases [OF path] by blast
next
  fix res h'
  assume "upload_file env cfg h file bucket_name = (res, h') \<and> h' \<noteq> h"
  then show "\<exists>bucket req.
           get_bucket cfg (py_or bucket_name (file_bucket_name file)) = Inr bucket \<and>
           h' = h @ [req] \<and> signed_request env cfg h bucket ''PUT'' path [] [] req"
    using upload_file_signed [OF _ _ path [folded fobj]] by blast
next
  fix res h'
  assume "download_file env cfg h object_name bucket_name = (res, h') \<and> h' \<noteq> h"
  then show "\<exists>bucket req. get_bucket cfg bucket_name = Inr bucket \<and> h' = h @ [req] \<and>
           signed_request env cfg h bucket ''GET'' path [] [] req"
    using download_file_signed [OF _ _ path] by blast
next
  fix res h'
  assume "delete_file env cfg h object_name bucket_name = (res, h') \<and> h' \<noteq> h"
  then show "\<exists>bucket req. get_bucket cfg bucket_name = Inr bucket \<and> h' = h @ [req] \<and>
           signed_request env cfg h bucket ''DELETE'' path [] [] req"
    using delete_file_signed [OF _ _ path] by blast
next
  fix res h'
  assume "file_exists env cfg h object_name bucket_name = (res, h') \<and> h' \<noteq> h"
  then show "\<exists>bucket req. get_bucket cfg bucket_name = Inr bucket \<and> h' = h @ [req] \<and>
           signed_request env cfg h bucket ''HEAD'' path [] [] req"
    using file_exists_signed [OF _ _ path] by blast
next
  fix bucket res h'
  assume "get_file_size env cfg h bucket object_name = (res, h') \<and> h' \<noteq> h"
  then show "\<exists>req. h' = h @ [req] \<and> signed_request env cfg h bucket ''HEAD'' path [] [] req"
    using get_file_size_signed [OF _ _ path] by blast
next
  fix position res h'
  assume run: "append_file env cfg h object_name data bucket_name (Some position) = (res, h') \<and>
          h' \<noteq> h"
  from append_file_sent [OF conjunct1 [OF run] conjunct2 [OF run] path]
  obtain bucket req where "get_bucket cfg bucket_name = Inr bucket" and "h' = h @ [req]"
    and "signed_request env cfg h bucket ''POST'' path
             [(''append'', []), (''position'', str_int position)]
             (''?append=&position='' @ str_int position) req"
    by blast
  then show "\<exists>bucket req. get_bucket cfg bucket_name = Inr bucket \<and> h' = h @ [req] \<and>
           signed_request env cfg h bucket ''POST'' path
             [(''append'', []), (''position'', str_int position)]
             (''?append=&position='' @ str_int position) req"
    by blast
next
  fix bucket u
  assume "get_presigned_url cr cfg now bucket object_name method expires_in = Inr u"
  then show "\<exists>host auth.
           get_host cfg bucket = Inr host \<and>
           u = ''https://'' @ host @ quote path ''/-_.~'' @ ''?'' @ auth \<and>
           sign cr cfg now method path (Some []) (Some [(''host'', host)]) (Some expires_in) =
             Inr auth"
    using get_presigned_url_signed [OF _ path] by blast
qed

text \<open>
  The theorem at a download of a key that starts with one slash: the URL is the resolved
  host followed by the key.
\<close>

theorem object_path_in_every_operation_witness:
  "''/docs/a.txt'' =
     (if startswith ''/docs/a.txt'' ''/'' then ''/docs/a.txt'' else ''/'' @ ''/docs/a.txt'') \<and>
   file_object_name (example_file\<lparr>file_object_name := ''/docs/a.txt''\<rparr>) = ''/docs/a.txt'' \<and>
   \<not> startswith ''/docs/a.txt'' ''//'' \<and>
   snd (download_file
          (example_env (RequestError []) (Response (example_response 200 no_headers [])))
          example_config [] ''/docs/a.txt'' None) \<noteq> [] \<and>
   (\<exists>req. snd (download_file
                 (example_env (RequestError []) (Response (example_response 200 no_headers [])))
                 example_config [] ''/docs/a.txt'' None) = [req] \<and>
          signed_request
            (example_env (RequestError []) (Response (example_response 200 no_headers [])))
            example_config [] ''b1'' ''GET'' ''/docs/a.txt'' [] [] req \<and>
          req_url req = ''https://b1.cos.ap-guangzhou.myqcloud.com/docs/a.txt'' \<and>
          map_of (req_headers req) ''host'' = Some ''b1.cos.ap-guangzhou.myqcloud.com'')"
proof -
  let ?e = "example_env (RequestError []) (Response (example_response 200 no_headers []))"
  have p: "''/docs/a.txt'' =
     (if startswith ''/docs/a.txt'' ''/'' then ''/docs/a.txt'' else ''/'' @ ''/docs/a.txt'')"
    by (simp add: startswith_def)
  have f: "file_object_name (example_file\<lparr>file_object_name := ''/docs/a.txt''\<rparr>) =
           ''/docs/a.txt''"
    by simp
  have s: "snd (download_file ?e example_config [] ''/docs/a.txt'' None) \<noteq> []"
    by (simp add: download_file_def sign_def Let_def eval_simps)
  have gb: "get_bucket example_config None = Inr ''b1''"
    by (simp add: eval_simps)
  have gh: "get_host example_config ''b1'' = Inr ''b1.cos.ap-guangzhou.myqcloud.com''"
    by (simp add: eval_simps)
  have q: "quote ''/docs/a.txt'' ''/-_.~'' = ''/docs/a.txt''"
    by (simp add: eval_simps)
  note inst = object_path_in_every_operation
                [OF p f, where env = ?e and cfg = example_config and h = "[]"
                           and bucket_name = None]
  from inst have n: "\<not> startswith ''/docs/a.txt'' ''//''"
    by (simp add: startswith_def)
  from inst s obtain bucket req where
    b: "get_bucket example_config None = Inr bucket" and
    r: "snd (download_file ?e example_config [] ''/docs/a.txt'' None) = [] @ [req]" and
    sr: "signed_request ?e example_config [] bucket ''GET'' ''/docs/a.txt'' [] [] req"
    by (metis prod.collapse)
  from b gb have bucket: "bucket = ''b1''" by simp
  from sr have u: "req_url req = ''https://b1.cos.ap-guangzhou.myqcloud.com/docs/a.txt''"
    and hh: "map_of (req_headers req) ''host'' = Some ''b1.cos.ap-guangzhou.myqcloud.com''"
    unfolding signed_request_def bucket gh q by auto
  from r sr u hh have d: "\<exists>req. snd (download_file ?e example_config [] ''/docs/a.txt'' None) =
                          [req] \<and>
          signed_request ?e example_config [] ''b1'' ''GET'' ''/docs/a.txt'' [] [] req \<and>
          req_url req = ''https://b1.cos.ap-guangzhou.myqcloud.com/docs/a.txt'' \<and>
          map_of (req_headers req) ''host'' = Some ''b1.cos.ap-guangzhou.myqcloud.com''"
    unfolding bucket by (intro exI [of _ req]) simp
  from p f n s d show ?thesis by (intro conjI)
qed

end
